theory Spec2Isabelle
  imports Complex_Main "HOL-Library.Word" "HOL-Library.DAList" "HOL-Library.Char_ord"
    "HOL-Library.List_Lexorder"
begin

section \<open>JavaScript values shared by the models\<close>

text \<open>
  Strings are lists of code units; the models use the code units 0..255, which cover
  every character the move and label grammars of the games mention. Numbers that the
  modelled functions compute with are integers, so \<open>int\<close> stands for the JavaScript
  number wherever the value is integral.

  An exception is a value of \<open>error\<close>: \<open>Error\<close> is the plain \<open>Error\<close> class,
  \<open>UserFacingError\<close> the class of that name from \<open>common/errors\<close> (its first argument,
  the code, is kept; of the message of an \<open>Error\<close> the fixed text is kept, without what
  is spliced into it), \<open>TypeError\<close> the engine's own error for reading a property of
  \<open>undefined\<close> or iterating a non-iterable, \<open>SyntaxError\<close> that of \<open>JSON.parse\<close>.
\<close>

datatype error = Error string | UserFacingError string | TypeError | SyntaxError

subsection \<open>\<open>Number.prototype.toString\<close> on integers\<close>

fun digits10 :: "nat \<Rightarrow> string" where
  "digits10 n =
     (if n < 10 then [char_of (48 + n)]
      else digits10 (n div 10) @ [char_of (48 + n mod 10)])"

definition toString :: "int \<Rightarrow> string" where
  "toString i = (if i < 0 then CHR ''-'' # digits10 (nat (- i)) else digits10 (nat i))"

subsection \<open>\<open>parseInt(s, 10)\<close>\<close>

text \<open>
  The white space that \<open>parseInt\<close> skips: TAB, LF, VT, FF, CR, SPACE and NBSP (the
  members of the ECMAScript \<open>WhiteSpace\<close> and \<open>LineTerminator\<close> classes below 256).
\<close>

definition isWhiteSpace :: "char \<Rightarrow> bool" where
  "isWhiteSpace c = (of_char c \<in> {9, 10, 11, 12, 13, 32, 160 :: nat})"

definition isDigit :: "char \<Rightarrow> bool" where
  "isDigit c = (48 \<le> (of_char c :: nat) \<and> (of_char c :: nat) \<le> 57)"

definition digitsValue :: "string \<Rightarrow> nat" where
  "digitsValue ds = foldl (\<lambda>acc c. 10 * acc + (of_char c - 48)) 0 ds"

text \<open>
  \<open>parseInt\<close> with radix 10: skip leading white space, read an optional sign, take the
  longest prefix of decimal digits; no digit gives \<open>NaN\<close> (here \<open>None\<close>). The value is
  the mathematical integer of the digits (the engine rounds it to a double once it
  passes \<open>2^53\<close>; the labels of a board stay far below).
\<close>

definition parseInt10 :: "string \<Rightarrow> int option" where
  "parseInt10 s =
     (let t = dropWhile isWhiteSpace s;
          neg = (t \<noteq> [] \<and> hd t = CHR ''-'');
          u = (if t \<noteq> [] \<and> (hd t = CHR ''-'' \<or> hd t = CHR ''+'') then tl t else t);
          z = takeWhile isDigit u
      in if z = [] then None
         else Some (if neg then - int (digitsValue z) else int (digitsValue z)))"

section \<open>Chase: labels and coordinates\<close>

definition columnLabels :: "string" where
  "columnLabels = ''abcdefghijklmnopqrstuvwxyz''"

text \<open>\<open>Array.prototype.indexOf\<close>: the first position of the element, or \<open>-1\<close>.\<close>

fun indexOf :: "'a list \<Rightarrow> 'a \<Rightarrow> int" where
  "indexOf [] x = -1"
| "indexOf (y # ys) x =
     (if y = x then 0 else (let i = indexOf ys x in if i < 0 then -1 else i + 1))"

text \<open>
  \<open>ChaseGame.coords2algebraic\<close>: \<open>columnLabels[9 - y - 1] + (x + 1).toString()\<close>. An
  index outside the array reads \<open>undefined\<close>, which the string concatenation renders as
  the text \<open>undefined\<close>.
\<close>

definition Chase_coords2algebraic :: "int \<Rightarrow> int \<Rightarrow> string" where
  "Chase_coords2algebraic x y =
     (let i = 9 - y - 1
      in (if 0 \<le> i \<and> i < int (length columnLabels) then [columnLabels ! nat i]
          else ''undefined'') @ toString (x + 1))"

text \<open>
  \<open>ChaseGame.algebraic2coords\<close>: the first code unit is looked up in \<open>columnLabels\<close>
  (an empty label has no first code unit and \<open>indexOf(undefined)\<close> is \<open>-1\<close>), the rest is
  read by \<open>parseInt\<close>.
\<close>

definition Chase_algebraic2coords :: "string \<Rightarrow> error + (int \<times> int)" where
  "Chase_algebraic2coords cell =
     (let num = drop 1 cell;
          y = (case cell of [] \<Rightarrow> -1 | c # _ \<Rightarrow> indexOf columnLabels c)
      in if y < 0 then Inl (Error ''The column label is invalid'')
         else (case parseInt10 num of
                 None \<Rightarrow> Inl (Error ''The row label is invalid'')
               | Some x \<Rightarrow> Inr (x - 1, 9 - y - 1)))"

text \<open>The 81 labels of the 9x9 Chase board: a letter \<open>a\<close>..\<open>i\<close> and a digit \<open>1\<close>..\<open>9\<close>.\<close>

definition chaseCells :: "string list" where
  "chaseCells = concat (map (\<lambda>l. map (\<lambda>d. [l, d]) ''123456789'') ''abcdefghi'')"

text \<open>
  The text that \<open>parseInt\<close> accepts, said without the function: white space, at most one
  sign, then a decimal digit; what follows the digit is not looked at.
\<close>

definition numberPrefix :: "string \<Rightarrow> bool" where
  "numberPrefix s =
     (\<exists>ws sg d rest. s = ws @ sg @ d # rest \<and> list_all isWhiteSpace ws
        \<and> (sg = [] \<or> sg = ''+'' \<or> sg = ''-'') \<and> isDigit d)"

subsection \<open>String helpers of the move grammars\<close>

text \<open>
  \<open>String.prototype.toLowerCase\<close> on the code units 0..255: the ASCII capitals and the
  Latin-1 capitals \<open>U+00C0\<close>..\<open>U+00DE\<close> (without the multiplication sign \<open>U+00D7\<close>)
  move up by 32.
\<close>

definition toLower :: "char \<Rightarrow> char" where
  "toLower c =
     (let n = (of_char c :: nat)
      in if (65 \<le> n \<and> n \<le> 90) \<or> (192 \<le> n \<and> n \<le> 222 \<and> n \<noteq> 215)
         then char_of (n + 32) else c)"

text \<open>
  The first two statements of every \<open>move\<close>: \<open>m.toLowerCase()\<close>, then
  \<open>m.replace(/\s+/g, "")\<close>; the class \<open>\s\<close> below 256 is \<open>isWhiteSpace\<close>.
\<close>

definition normalizeInput :: "string \<Rightarrow> string" where
  "normalizeInput m = filter (\<lambda>c. \<not> isWhiteSpace c) (map toLower m)"

text \<open>
  \<open>String.prototype.split\<close> at every code unit that satisfies \<open>p\<close>: a separator
  closes the current piece, so the result is never empty (\<open>"".split("=")\<close> is \<open>[""]\<close>).
\<close>

fun splitOn :: "(char \<Rightarrow> bool) \<Rightarrow> string \<Rightarrow> string list" where
  "splitOn p [] = [[]]"
| "splitOn p (c # cs) =
     (if p c then [] # splitOn p cs
      else (case splitOn p cs of
              [] \<Rightarrow> [[c]]
            | w # ws \<Rightarrow> (c # w) # ws))"

text \<open>\<open>Array.prototype.join\<close> on strings.\<close>

fun joinWith :: "string \<Rightarrow> string list \<Rightarrow> string" where
  "joinWith sep [] = []"
| "joinWith sep [x] = x"
| "joinWith sep (x # y # ys) = x @ sep @ joinWith sep (y # ys)"

section \<open>Methods that mutate and raise\<close>

text \<open>
  A method of a game object reads and writes the fields of \<open>this\<close> and may raise. Its
  model takes the object's state and gives an outcome: the value returned together with
  the state left behind, or the exception together with the state left behind (what was
  assigned before a \<open>throw\<close> stays assigned).
\<close>

datatype ('a, 's) outcome = Return 'a 's | Throw error 's

type_synonym ('a, 's) prog = "'s \<Rightarrow> ('a, 's) outcome"

fun stateOf :: "('a, 's) outcome \<Rightarrow> 's" where
  "stateOf (Return x s) = s"
| "stateOf (Throw e s) = s"

fun raised :: "('a, 's) outcome \<Rightarrow> bool" where
  "raised (Return x s) = False"
| "raised (Throw e s) = True"

definition ret :: "'a \<Rightarrow> ('a, 's) prog" where
  "ret x = (\<lambda>s. Return x s)"

definition throw :: "error \<Rightarrow> ('a, 's) prog" where
  "throw e = (\<lambda>s. Throw e s)"

definition bind :: "('a, 's) prog \<Rightarrow> ('a \<Rightarrow> ('b, 's) prog) \<Rightarrow> ('b, 's) prog" where
  "bind m f = (\<lambda>s. case m s of Return x s' \<Rightarrow> f x s' | Throw e s' \<Rightarrow> Throw e s')"

text \<open>Reading \<open>this\<close>, and assigning to its fields.\<close>

definition gets :: "('s \<Rightarrow> 'a) \<Rightarrow> ('a, 's) prog" where
  "gets f = (\<lambda>s. Return (f s) s)"

definition modify :: "('s \<Rightarrow> 's) \<Rightarrow> (unit, 's) prog" where
  "modify f = (\<lambda>s. Return () (f s))"

text \<open>A call into a library that returns or raises without touching \<open>this\<close>.\<close>

definition lift :: "error + 'a \<Rightarrow> ('a, 's) prog" where
  "lift r = (\<lambda>s. case r of Inl e \<Rightarrow> Throw e s | Inr x \<Rightarrow> Return x s)"

text \<open>\<open>try { m } catch { h }\<close>: the handler runs in the state the exception left.\<close>

definition tryCatch :: "('a, 's) prog \<Rightarrow> ('a, 's) prog \<Rightarrow> ('a, 's) prog" where
  "tryCatch m h = (\<lambda>s. case m s of Return x s' \<Rightarrow> Return x s' | Throw e s' \<Rightarrow> h s')"

text \<open>\<open>xs.map(f)\<close> where \<open>f\<close> is a method call: left to right, stopping at a raise.\<close>

fun mapM :: "('a \<Rightarrow> ('b, 's) prog) \<Rightarrow> 'a list \<Rightarrow> ('b list, 's) prog" where
  "mapM f [] = ret []"
| "mapM f (x # xs) = bind (f x) (\<lambda>y. bind (mapM f xs) (\<lambda>ys. ret (y # ys)))"

text \<open>\<open>for (const x of xs) { acc = f(acc, x) }\<close> where the body calls methods.\<close>

fun foldM :: "('b \<Rightarrow> 'a \<Rightarrow> ('b, 's) prog) \<Rightarrow> 'b \<Rightarrow> 'a list \<Rightarrow> ('b, 's) prog" where
  "foldM f acc [] = ret acc"
| "foldM f acc (x # xs) = bind (f acc x) (\<lambda>acc'. foldM f acc' xs)"

section \<open>Effect records and snapshots\<close>

text \<open>
  \<open>APMoveResult\<close>, restricted to the tags the modelled games push. \<open>what\<close> is optional.
  A JavaScript number is a \<open>number\<close>: \<open>NaN\<close>, the two infinities, the negative zero,
  or a finite number, taken as the rational it is (\<open>Num 0\<close> is the positive zero).
\<close>

datatype number = NaN | PosInfinity | NegInfinity | NegZero | Num rat

datatype APMoveResult =
    RPlace "string option" string
  | RCapture "string option" string
  | RMove string string
  | RBlock string
  | RPass
  | RButton
  | RKomi number
  | RResigned int
  | REog
  | RWinners "int list"

text \<open>
  \<open>Map\<close> is an association list with distinct keys in insertion order
  (\<^typ>\<open>('k, 'v) alist\<close>): \<open>set\<close> on a present key keeps its place, on a new key
  appends; \<open>delete\<close> removes.
\<close>

definition mapHas :: "('k, 'v) alist \<Rightarrow> 'k \<Rightarrow> bool" where
  "mapHas m k = (DAList.lookup m k \<noteq> None)"

definition entries :: "('k, 'v) alist \<Rightarrow> ('k \<times> 'v) list" where
  "entries m = DAList.impl_of m"

definition mapValues :: "('k, 'v) alist \<Rightarrow> 'v list" where
  "mapValues m = map snd (DAList.impl_of m)"

definition mapSize :: "('k, 'v) alist \<Rightarrow> nat" where
  "mapSize m = length (DAList.impl_of m)"

text \<open>
  One entry of the stack (\<open>IMoveState\<close>), with the fields every game stores; the wall-clock
  \<open>_timestamp\<close> that some games add is left out. The field names carry the prefix
  \<open>st_\<close> because the game object has fields of the same names.
\<close>

record 'c IMoveState =
  st_version :: string
  st_results :: "APMoveResult list"
  st_currplayer :: int
  st_board :: "(string, 'c) alist"
  st_lastmove :: "string option"

text \<open>The fields every game object has (\<open>GameBase\<close> and each game class declare them).\<close>

record ('c, 'm) GameBase =
  numplayers :: int
  currplayer :: int
  board :: "(string, 'c) alist"
  lastmove :: "string option"
  gameover :: bool
  winner :: "int list"
  variants :: "string list"
  stack :: "'m list"
  results :: "APMoveResult list"

section \<open>Cephalopod\<close>

text \<open>
  Several game classes have methods of the same name; each model carries the name of
  its class in front (\<open>Ceph_\<close>, \<open>Stig_\<close>, \<open>Amazons_\<close>, \<open>Chase_\<close>).
\<close>

text \<open>
  The two board graphs come from \<open>common/graphs\<close>, which is not among the sources. The
  game object keeps which graph it built; the two queries the game asks are parameters.
\<close>

datatype IGraph = SquareOrthGraph int int | SnubSquareGraph int int

record IGraphOps =
  g_listCells :: "IGraph \<Rightarrow> string list"
  g_neighbours :: "IGraph \<Rightarrow> string \<Rightarrow> string list"

text \<open>\<open>CellContents = [playerid, Value]\<close>.\<close>

type_synonym CellContents = "int \<times> int"

record CephalopodGame = "(CellContents, CellContents IMoveState) GameBase" +
  Ceph_graph :: IGraph

text \<open>
  \<open>PowerSet\<close> and \<open>Permutation\<close> of js-combinatorics: the subsets in the order of a
  binary counter whose lowest bit is the first element, the permutations in
  lexicographic order of the positions.
\<close>

fun PowerSet :: "'a list \<Rightarrow> 'a list list" where
  "PowerSet [] = [[]]"
| "PowerSet (x # xs) = concat (map (\<lambda>s. [s, x # s]) (PowerSet xs))"

fun picks :: "'a list \<Rightarrow> ('a \<times> 'a list) list" where
  "picks [] = []"
| "picks (x # xs) = (x, xs) # map (\<lambda>(y, ys). (y, x # ys)) (picks xs)"

fun PermutationN :: "nat \<Rightarrow> 'a list \<Rightarrow> 'a list list" where
  "PermutationN 0 xs = [[]]"
| "PermutationN (Suc n) xs =
     concat (map (\<lambda>(y, ys). map (\<lambda>p. y # p) (PermutationN n ys)) (picks xs))"

definition Permutation :: "'a list \<Rightarrow> 'a list list" where
  "Permutation xs = PermutationN (length xs) xs"

text \<open>\<open>CephalopodGame.moves(player, permissive)\<close>.\<close>

definition Ceph_capturesOf :: "bool \<Rightarrow> string \<Rightarrow> (string \<times> int) list \<Rightarrow> string list" where
  "Ceph_capturesOf permissive cell neighbours =
     concat (map (\<lambda>set.
        if length set > 1 then
          (let sum = sum_list (map snd set)
           in if sum \<le> 6 then
                (if permissive
                 then map (\<lambda>p. cell @ ''='' @ joinWith ''+'' p) (Permutation (map fst set))
                 else [cell @ ''='' @ joinWith ''+'' (map fst set)])
              else [])
        else []) (PowerSet neighbours))"

definition Ceph_moves :: "IGraphOps \<Rightarrow> CephalopodGame \<Rightarrow> int option \<Rightarrow> bool \<Rightarrow> string list" where
  "Ceph_moves G s player permissive =
     (if gameover s then []
      else concat (map (\<lambda>cell.
        if \<not> mapHas (board s) cell then
          (let nCells = g_neighbours G (Ceph_graph s) cell;
               neighbours = map (\<lambda>e. (fst e, snd (snd e)))
                              (filter (\<lambda>e. fst e \<in> set nCells) (entries (board s)));
               captures = Ceph_capturesOf permissive cell neighbours
           in if length captures > 0 then captures else [cell])
        else []) (g_listCells G (Ceph_graph s))))"

text \<open>\<open>CephalopodGame.getPlayerScore\<close>.\<close>

definition Ceph_getPlayerScore :: "CephalopodGame \<Rightarrow> int \<Rightarrow> int" where
  "Ceph_getPlayerScore s player = int (length (filter (\<lambda>v. fst v = player) (mapValues (board s))))"

text \<open>\<open>CephalopodGame.checkEOG\<close>.\<close>

definition Ceph_checkEOG :: "IGraphOps \<Rightarrow> (unit, CephalopodGame) prog" where
  "Ceph_checkEOG G s =
     (if mapSize (board s) = length (g_listCells G (Ceph_graph s)) then
        (let s1 = s\<lparr>gameover := True\<rparr>;
             score1 = Ceph_getPlayerScore s1 1;
             score2 = Ceph_getPlayerScore s1 2
         in if score1 > score2 then
              Return () (s1\<lparr>winner := [1], results := results s1 @ [REog, RWinners [1]]\<rparr>)
            else if score1 < score2 then
              Return () (s1\<lparr>winner := [2], results := results s1 @ [REog, RWinners [2]]\<rparr>)
            else Throw (Error ''Draws shouldn't be possible.'') s1)
      else Return () s)"

text \<open>\<open>CephalopodGame.moveState\<close>.\<close>

definition Ceph_moveState :: "CephalopodGame \<Rightarrow> CellContents IMoveState" where
  "Ceph_moveState s =
     \<lparr>st_version = ''20211113'', st_results = results s, st_currplayer = currplayer s,
      st_board = board s, st_lastmove = lastmove s\<rparr>"

text \<open>
  Modelled from the spec: \<open>GameBase.saveState\<close> is not among the sources; the move
  pipeline ends by "pushing the new snapshot onto the stack", the snapshot being what
  \<open>moveState\<close> returns.
\<close>

definition Ceph_saveState :: "(unit, CephalopodGame) prog" where
  "Ceph_saveState s = Return () (s\<lparr>stack := stack s @ [Ceph_moveState s]\<rparr>)"

text \<open>
  The loop over the captured cells in \<open>move\<close>: \<open>contents![1]\<close> on an absent cell is a
  \<open>TypeError\<close>.
\<close>

fun Ceph_captureLoop :: "string list \<Rightarrow> (unit, CephalopodGame) prog" where
  "Ceph_captureLoop [] s = Return () s"
| "Ceph_captureLoop (cap # caps) s =
     (case DAList.lookup (board s) cap of
        None \<Rightarrow> Throw TypeError s
      | Some contents \<Rightarrow>
          Ceph_captureLoop caps
            (s\<lparr>results := results s @ [RCapture (Some (toString (snd contents))) cap],
               board := DAList.delete cap (board s)\<rparr>))"

text \<open>
  The body of \<open>move\<close> after the two checks. \<open>reduce\<close> without an initial value raises a
  \<open>TypeError\<close> on an empty array.
\<close>

definition Ceph_applyMove :: "string \<Rightarrow> (unit, CephalopodGame) prog" where
  "Ceph_applyMove m s =
     (let s1 = s\<lparr>results := []\<rparr>
      in if CHR ''='' \<in> set m then
           (case splitOn (\<lambda>c. c = CHR ''='') m of
              cell # rest # _ \<Rightarrow>
                (let caps = splitOn (\<lambda>c. c = CHR ''+'') rest;
                     vals = map (\<lambda>e. snd (snd e))
                              (filter (\<lambda>e. fst e \<in> set caps) (entries (board s1)))
                 in if vals = [] then Throw TypeError s1
                    else (let sum = sum_list vals
                          in if sum > 6
                             then Throw (Error ''Invalid capture. Sum greater than 6.'') s1
                             else Ceph_captureLoop caps
                                    (s1\<lparr>board := DAList.update cell (currplayer s1, sum) (board s1),
                                        results := results s1 @ [RPlace (Some (toString sum)) cell]\<rparr>)))
            | _ \<Rightarrow> Throw TypeError s1)
         else Return () (s1\<lparr>board := DAList.update m (currplayer s1, 1) (board s1),
                             results := results s1 @ [RPlace (Some ''1'') m]\<rparr>))"

definition Ceph_advancePlayer :: "string \<Rightarrow> (unit, CephalopodGame) prog" where
  "Ceph_advancePlayer m s =
     (let newplayer = currplayer s + 1
      in Return () (s\<lparr>lastmove := Some m,
                       currplayer := (if newplayer > numplayers s then 1 else newplayer)\<rparr>))"

text \<open>\<open>CephalopodGame.move\<close>.\<close>

definition Ceph_move :: "IGraphOps \<Rightarrow> string \<Rightarrow> (unit, CephalopodGame) prog" where
  "Ceph_move G m s =
     (if gameover s then Throw (UserFacingError ''MOVES_GAMEOVER'') s
      else (let m' = normalizeInput m
            in if m' \<notin> set (Ceph_moves G s None True)
               then Throw (UserFacingError ''MOVES_INVALID'') s
               else bind (Ceph_applyMove m')
                      (\<lambda>_. bind (Ceph_advancePlayer m')
                        (\<lambda>_. bind (Ceph_checkEOG G) (\<lambda>_. Ceph_saveState))) s))"


text \<open>
  \<open>CephalopodGame.buildGraph\<close> and \<open>CephalopodGame.load(idx)\<close>. The assignments of
  \<open>load\<close> are those to \<open>currplayer\<close>, \<open>board\<close> and \<open>lastmove\<close>, followed by the call of
  \<open>buildGraph\<close>; there is none to \<open>results\<close>.
\<close>

definition Ceph_buildGraph :: "(unit, CephalopodGame) prog" where
  "Ceph_buildGraph s =
     (if ''snub'' \<in> set (variants s)
      then Return () (s\<lparr>Ceph_graph := SnubSquareGraph 5 5\<rparr>)
      else Return () (s\<lparr>Ceph_graph := SquareOrthGraph 5 5\<rparr>))"

definition Ceph_load :: "int \<Rightarrow> (unit, CephalopodGame) prog" where
  "Ceph_load idx0 s =
     (let idx = (if idx0 < 0 then idx0 + int (length (stack s)) else idx0)
      in if idx < 0 \<or> idx \<ge> int (length (stack s))
         then Throw (Error ''Could not load the requested state from the stack.'') s
         else (let state = stack s ! nat idx
               in Ceph_buildGraph (s\<lparr>currplayer := st_currplayer state,
                                     board := st_board state,
                                     lastmove := st_lastmove state\<rparr>)))"
section \<open>Stigmergy\<close>

text \<open>
  \<open>HexTriGraph\<close> comes from \<open>common/graphs\<close>, which is not among the sources. A graph
  object is known by the two arguments of its constructor; the five queries the game
  asks are parameters, each of which may raise.
\<close>

datatype HexTriGraph = HexTriGraph int int

datatype directions = NE | E | SE | SW | W | NW

definition allDirections :: "directions list" where
  "allDirections = [NE, E, SE, SW, W, NW]"

record HexTriGraphOps =
  h_algebraic2coords :: "HexTriGraph \<Rightarrow> string \<Rightarrow> error + (int \<times> int)"
  h_coords2algebraic :: "HexTriGraph \<Rightarrow> int \<Rightarrow> int \<Rightarrow> error + string"
  h_neighbours :: "HexTriGraph \<Rightarrow> string \<Rightarrow> error + string list"
  h_ray :: "HexTriGraph \<Rightarrow> int \<Rightarrow> int \<Rightarrow> directions \<Rightarrow> error + (int \<times> int) list"
  h_listCells :: "HexTriGraph \<Rightarrow> error + string list"

text \<open>The stack entry of Stigmergy adds three fields; \<open>undefined\<close> is \<open>None\<close>.\<close>

record StigMoveState = "int IMoveState" +
  st_scores :: "int \<times> int"
  st_buttontaker :: "int option"
  st_komi :: "number option"

record StigmergyGame = "(int, StigMoveState) GameBase" +
  Stig_graph :: "HexTriGraph option"
  scores :: "int \<times> int"
  buttontaker :: "int option"
  komi :: "number option"
  boardSize :: int

text \<open>\<open>IValidationResult\<close>; the message is the key handed to \<open>i18next.t\<close>.\<close>

record IValidationResult =
  valid :: bool
  message :: string
  complete :: "int option"
  canrender :: "bool option"

subsection \<open>Arithmetic on numbers\<close>

text \<open>
  Addition: \<open>NaN\<close> absorbs, the two infinities of opposite sign add to \<open>NaN\<close>, the
  negative zero is neutral. Finite numbers are added as rationals (a double rounds the
  sum once it passes \<open>2^53\<close>).
\<close>

definition numAdd :: "number \<Rightarrow> number \<Rightarrow> number" where
  "numAdd a b =
     (case a of
        NaN \<Rightarrow> NaN
      | PosInfinity \<Rightarrow> (case b of NaN \<Rightarrow> NaN | NegInfinity \<Rightarrow> NaN | _ \<Rightarrow> PosInfinity)
      | NegInfinity \<Rightarrow> (case b of NaN \<Rightarrow> NaN | PosInfinity \<Rightarrow> NaN | _ \<Rightarrow> NegInfinity)
      | NegZero \<Rightarrow> b
      | Num x \<Rightarrow>
          (case b of
             NaN \<Rightarrow> NaN
           | PosInfinity \<Rightarrow> PosInfinity
           | NegInfinity \<Rightarrow> NegInfinity
           | NegZero \<Rightarrow> Num x
           | Num y \<Rightarrow> Num (x + y)))"

text \<open>
  The place of a number in the order: the infinities lie outside the finite numbers,
  the two zeros are equal, \<open>NaN\<close> has no place and every comparison with it is false.
\<close>

definition numOrd :: "number \<Rightarrow> (int \<times> rat) option" where
  "numOrd a =
     (case a of
        NaN \<Rightarrow> None
      | PosInfinity \<Rightarrow> Some (1, 0)
      | NegInfinity \<Rightarrow> Some (-1, 0)
      | NegZero \<Rightarrow> Some (0, 0)
      | Num x \<Rightarrow> Some (0, x))"

definition numGreater :: "number \<Rightarrow> number \<Rightarrow> bool" where
  "numGreater a b =
     (case (numOrd a, numOrd b) of
        (Some p, Some q) \<Rightarrow> fst p > fst q \<or> (fst p = fst q \<and> snd p > snd q)
      | _ \<Rightarrow> False)"

text \<open>
  The remainder operator \<open>%\<close> with a finite divisor: the quotient is truncated
  towards zero and the result has the sign of the dividend, so a zero remainder of a
  negative dividend is the negative zero.
\<close>

definition numRem :: "number \<Rightarrow> rat \<Rightarrow> number" where
  "numRem a d =
     (case a of
        NegZero \<Rightarrow> (if d = 0 then NaN else NegZero)
      | Num x \<Rightarrow>
          if d = 0 then NaN
          else (let q = x / d;
                    t = (if q \<ge> 0 then \<lfloor>q\<rfloor> else \<lceil>q\<rceil>);
                    r = x - d * of_int t
                in if r = 0 \<and> x < 0 then NegZero else Num r)
      | _ \<Rightarrow> NaN)"

text \<open>
  \<open>parseInt(s, 10)\<close> as a number: \<open>NaN\<close> without a digit, the negative zero for a
  minus sign before zeros.
\<close>

definition parseIntNum :: "string \<Rightarrow> number" where
  "parseIntNum s =
     (case parseInt10 s of
        None \<Rightarrow> NaN
      | Some i \<Rightarrow>
          (let t = dropWhile isWhiteSpace s
           in if i = 0 \<and> t \<noteq> [] \<and> hd t = CHR ''-'' then NegZero else Num (of_int i)))"

subsection \<open>Graph access\<close>

text \<open>\<open>buildGraph\<close> assigns the field and returns the new graph.\<close>

definition Stig_buildGraph :: "(HexTriGraph, StigmergyGame) prog" where
  "Stig_buildGraph s =
     (let g = HexTriGraph (boardSize s) ((boardSize s * 2) - 1)
      in Return g (s\<lparr>Stig_graph := Some g\<rparr>))"

text \<open>\<open>getGraph()\<close> without an argument, the only form the modelled methods call.\<close>

definition Stig_getGraph :: "(HexTriGraph, StigmergyGame) prog" where
  "Stig_getGraph s = (case Stig_graph s of None \<Rightarrow> Stig_buildGraph s | Some g \<Rightarrow> Return g s)"

text \<open>\<open>listCells()\<close> with \<open>ordered = false\<close>, the flat listing.\<close>

definition Stig_listCells :: "HexTriGraphOps \<Rightarrow> (string list, StigmergyGame) prog" where
  "Stig_listCells G =
     tryCatch (bind Stig_getGraph (\<lambda>g. lift (h_listCells G g)))
              (bind Stig_buildGraph (\<lambda>g. lift (h_listCells G g)))"

definition Stig_getOtherPlayer :: "StigmergyGame \<Rightarrow> int \<Rightarrow> int" where
  "Stig_getOtherPlayer s player =
     (let otherplayer = player + 1 in if otherplayer > numplayers s then 1 else otherplayer)"

definition Stig_isButtonActive :: "StigmergyGame \<Rightarrow> bool" where
  "Stig_isButtonActive s =
     (buttontaker s = None \<and> komi s \<noteq> None \<and>
      (case komi s of None \<Rightarrow> False | Some k \<Rightarrow> numRem k 2 = Num 1))"

subsection \<open>Lines of sight\<close>

text \<open>The inner loop of \<open>getLosCount\<close>: the first occupied cell of the ray decides.\<close>

fun losHit :: "(string, int) alist \<Rightarrow> int \<Rightarrow> string list \<Rightarrow> int" where
  "losHit b player [] = 0"
| "losHit b player (c # cs) =
     (if mapHas b c then (if DAList.lookup b c = Some player then 1 else 0)
      else losHit b player cs)"

definition Stig_rayCells :: "HexTriGraphOps \<Rightarrow> string \<Rightarrow> directions \<Rightarrow> (string list, StigmergyGame) prog" where
  "Stig_rayCells G cell dir =
     bind Stig_getGraph (\<lambda>g1.
     bind Stig_getGraph (\<lambda>g2.
     bind (lift (h_algebraic2coords G g2 cell)) (\<lambda>xy.
     bind (lift (h_ray G g1 (fst xy) (snd xy) dir)) (\<lambda>r.
     mapM (\<lambda>c. bind Stig_getGraph (\<lambda>g3. lift (h_coords2algebraic G g3 (fst c) (snd c)))) r))))"

definition Stig_getLosCount :: "HexTriGraphOps \<Rightarrow> string \<Rightarrow> int \<Rightarrow> (int, StigmergyGame) prog" where
  "Stig_getLosCount G cell player =
     foldM (\<lambda>losCount dir.
              bind (Stig_rayCells G cell dir) (\<lambda>ray.
              gets (\<lambda>s. losCount + losHit (board s) player ray)))
           0 allDirections"

text \<open>\<open>Math.floor(this.getGraph().neighbours(cell).length / 2) + 1\<close>.\<close>

definition Stig_losTarget :: "HexTriGraphOps \<Rightarrow> string \<Rightarrow> (int, StigmergyGame) prog" where
  "Stig_losTarget G cell =
     bind Stig_getGraph (\<lambda>g.
     bind (lift (h_neighbours G g cell)) (\<lambda>ns. ret (int (length ns) div 2 + 1)))"

subsection \<open>\<open>moves\<close>\<close>

text \<open>One round of the loop over the cells; the accumulator is \<open>(moves, freeSpaces)\<close>.\<close>

definition Stig_movesStep ::
  "HexTriGraphOps \<Rightarrow> int \<Rightarrow> int \<Rightarrow> string list \<times> bool \<Rightarrow> string \<Rightarrow> (string list \<times> bool, StigmergyGame) prog" where
  "Stig_movesStep G player otherPlayer acc cell =
     bind (Stig_losTarget G cell) (\<lambda>losTarget.
     bind (Stig_getLosCount G cell player) (\<lambda>playerLos.
     bind (Stig_getLosCount G cell otherPlayer) (\<lambda>otherPlayerLos.
     gets (\<lambda>s.
       (let b = board s;
            moves1 =
              (if mapHas b cell \<and> DAList.lookup b cell = Some otherPlayer \<and> playerLos \<ge> losTarget
               then fst acc @ [cell]
               else if \<not> mapHas b cell \<and> otherPlayerLos < losTarget then fst acc @ [cell]
               else fst acc);
            free1 =
              (if \<not> snd acc \<and> \<not> mapHas b cell \<and> playerLos < losTarget \<and> otherPlayerLos < losTarget
               then True else snd acc)
        in (moves1, free1))))))"

definition Stig_moves :: "HexTriGraphOps \<Rightarrow> int option \<Rightarrow> (string list, StigmergyGame) prog" where
  "Stig_moves G player0 s =
     (if gameover s then Return [] s
      else (let player = (case player0 of None \<Rightarrow> currplayer s | Some p \<Rightarrow> p);
                otherPlayer = Stig_getOtherPlayer s player
            in if length (stack s) = 1 then Return [] s
               else if length (stack s) = 2 then Return [''pass''] s
               else bind (Stig_listCells G) (\<lambda>cells.
                    bind (foldM (Stig_movesStep G player otherPlayer) ([], False) cells) (\<lambda>acc.
                    gets (\<lambda>s'.
                      (let moves1 = (if Stig_isButtonActive s' then fst acc @ [''_btn|takebutton|button'']
                                     else fst acc)
                       in if \<not> snd acc \<and> \<not> Stig_isButtonActive s' then moves1 @ [''pass'']
                          else moves1)))) s))"

subsection \<open>\<open>validateMove\<close>\<close>

definition verdict :: "bool \<Rightarrow> string \<Rightarrow> int option \<Rightarrow> bool option \<Rightarrow> IValidationResult" where
  "verdict v msg c r = \<lparr>valid = v, message = msg, complete = c, canrender = r\<rparr>"

text \<open>The part of \<open>validateMove\<close> that follows the check of the cell label.\<close>

definition Stig_validateCell :: "HexTriGraphOps \<Rightarrow> string \<Rightarrow> (IValidationResult, StigmergyGame) prog" where
  "Stig_validateCell G m =
     bind (gets (\<lambda>s. mapHas (board s) m \<and> DAList.lookup (board s) m = Some (currplayer s))) (\<lambda>own.
     if own then
       gets (\<lambda>s. if Stig_isButtonActive s
                  then verdict False ''apgames:validation.stigmergy.INITIAL_INSTRUCTIONS_BUTTON'' None None
                  else verdict False ''apgames:validation.stigmergy.INITIAL_INSTRUCTIONS'' None None)
     else
       bind (gets currplayer) (\<lambda>cp.
       bind (Stig_getLosCount G m cp) (\<lambda>losCount.
       bind (gets (\<lambda>s. Stig_getOtherPlayer s (currplayer s))) (\<lambda>otherPlayer.
       bind (Stig_losTarget G m) (\<lambda>losTarget.
       bind (gets (\<lambda>s. mapHas (board s) m
                        \<and> DAList.lookup (board s) m = Some (Stig_getOtherPlayer s (currplayer s))
                        \<and> losCount < losTarget)) (\<lambda>weak.
       if weak then ret (verdict False ''apgames:validation.stigmergy.INSUFFICIENT_LOS'' None None)
       else
         bind (Stig_getLosCount G m otherPlayer) (\<lambda>losCount2.
         bind (gets (\<lambda>s. \<not> mapHas (board s) m \<and> losCount2 \<ge> losTarget)) (\<lambda>controlled.
         if controlled
         then ret (verdict False ''apgames:validation.stigmergy.OPPONENT_CONTROL'' None None)
         else ret (verdict True ''apgames:validation._general.VALID_MOVE'' (Some 1) (Some True))))))))))"

text \<open>
  \<open>StigmergyGame.validateMove\<close>. \<open>parseInt\<close> never raises, so the handler of the first
  \<open>try\<close> never runs; it is kept as the source has it.
\<close>

definition Stig_validateMove :: "HexTriGraphOps \<Rightarrow> string \<Rightarrow> (IValidationResult, StigmergyGame) prog" where
  "Stig_validateMove G m0 s =
     (let m = normalizeInput m0
      in if length (stack s) = 1 then
           (if length m = 0
            then Return (verdict True ''apgames:validation.stigmergy.INITIAL_SETUP'' (Some (-1)) None) s
            else tryCatch
                   (bind (ret (parseIntNum m))
                      (\<lambda>_. ret (verdict True ''apgames:validation.stigmergy.INITIAL_SETUP'' (Some 0) None)))
                   (ret (verdict False ''apgames:validation.stigmergy.INVALIDKOMI'' None None)) s)
         else if length m = 0 then
           Return (verdict True
                     (if length (stack s) = 2 then ''apgames:validation.stigmergy.KOMI_CHOICE''
                      else if Stig_isButtonActive s
                      then ''apgames:validation.stigmergy.INITIAL_INSTRUCTIONS_BUTTON''
                      else ''apgames:validation.stigmergy.INITIAL_INSTRUCTIONS'')
                     (Some (-1)) None) s
         else if m = ''pass'' then
           bind (Stig_moves G None) (\<lambda>ms.
             if ''pass'' \<in> set ms
             then ret (verdict True ''apgames:validation._general.VALID_MOVE'' (Some 1) None)
             else ret (verdict False ''apgames:validation.stigmergy.INVALIDPASS'' None None)) s
         else if m = ''button'' then
           (if Stig_isButtonActive s
            then Return (verdict True ''apgames:validation._general.VALID_MOVE'' (Some 1) None) s
            else Return (verdict False ''apgames:validation.stigmergy.INVALIDBUTTON'' None None) s)
         else
           bind (tryCatch
                   (bind Stig_getGraph (\<lambda>g.
                    bind (lift (h_algebraic2coords G g m)) (\<lambda>_. ret True)))
                   (ret False))
             (\<lambda>ok. if \<not> ok
                    then ret (verdict False ''apgames:validation._general.INVALIDCELL'' None None)
                    else Stig_validateCell G m) s)"

subsection \<open>Scores and the end of the game\<close>

definition Stig_cellOwner :: "HexTriGraphOps \<Rightarrow> string \<Rightarrow> (int option, StigmergyGame) prog" where
  "Stig_cellOwner G cell s =
     (if mapHas (board s) cell then Return (DAList.lookup (board s) cell) s
      else bind (Stig_losTarget G cell) (\<lambda>losTarget.
           bind (Stig_getLosCount G cell 1) (\<lambda>player1Los.
           bind (Stig_getLosCount G cell 2) (\<lambda>player2Los.
           ret (if player1Los \<ge> losTarget then Some 1
                else if player2Los \<ge> losTarget then Some 2
                else None)))) s)"

text \<open>
  \<open>this.scores[owner - 1]++\<close>; an owner is a \<open>playerid\<close>, 1 or 2, by the type of the
  board.
\<close>

definition bumpScore :: "int \<Rightarrow> int \<times> int \<Rightarrow> int \<times> int" where
  "bumpScore owner sc =
     (if owner = 1 then (fst sc + 1, snd sc)
      else if owner = 2 then (fst sc, snd sc + 1)
      else sc)"

definition Stig_updateScores :: "HexTriGraphOps \<Rightarrow> (unit, StigmergyGame) prog" where
  "Stig_updateScores G =
     bind (modify (\<lambda>s. s\<lparr>scores := (0, 0)\<rparr>)) (\<lambda>_.
     bind (Stig_listCells G) (\<lambda>cells.
     foldM (\<lambda>_ cell.
              bind (Stig_cellOwner G cell) (\<lambda>owner.
              case owner of
                None \<Rightarrow> ret ()
              | Some p \<Rightarrow> modify (\<lambda>s. s\<lparr>scores := bumpScore p (scores s)\<rparr>)))
           () cells))"

definition Stig_getPlayerScore :: "StigmergyGame \<Rightarrow> int \<Rightarrow> number" where
  "Stig_getPlayerScore s player =
     numAdd (numAdd (Num (of_int (if player = 1 then fst (scores s) else snd (scores s))))
                    (Num (if buttontaker s = Some player then 1 / 2 else 0)))
            (if player = 2 \<and> komi s \<noteq> None then (case komi s of Some k \<Rightarrow> k | None \<Rightarrow> Num 0)
             else Num 0)"

definition Stig_checkEOG :: "(unit, StigmergyGame) prog" where
  "Stig_checkEOG s =
     (if lastmove s = Some ''pass'' \<and> stack s = [] then Throw TypeError s
      else
        (let s1 =
           (if lastmove s = Some ''pass'' \<and> st_lastmove (last (stack s)) = Some ''pass'' then
              (let s' = s\<lparr>gameover := True\<rparr>;
                   p1Score = Stig_getPlayerScore s' 1;
                   p2Score = Stig_getPlayerScore s' 2
               in s'\<lparr>winner := (if numGreater p1Score p2Score then [1]
                                  else if numGreater p2Score p1Score then [2]
                                  else [1, 2])\<rparr>)
            else s)
         in if gameover s1
            then Return () (s1\<lparr>results := results s1 @ [REog, RWinners (winner s1)]\<rparr>)
            else Return () s1))"

definition Stig_moveState :: "StigmergyGame \<Rightarrow> StigMoveState" where
  "Stig_moveState s =
     \<lparr>st_version = ''20240524'', st_results = results s, st_currplayer = currplayer s,
      st_board = board s, st_lastmove = lastmove s, st_scores = scores s,
      st_buttontaker = buttontaker s, st_komi = komi s\<rparr>"

text \<open>
  Modelled from the spec: \<open>GameBase.saveState\<close> is not among the sources; the move
  pipeline ends by "pushing the new snapshot onto the stack", the snapshot being what
  \<open>moveState\<close> returns.
\<close>

definition Stig_saveState :: "(unit, StigmergyGame) prog" where
  "Stig_saveState s = Return () (s\<lparr>stack := stack s @ [Stig_moveState s]\<rparr>)"

subsection \<open>\<open>move\<close>\<close>

text \<open>The two checks of \<open>move\<close> that run when \<open>trusted\<close> is false.\<close>

definition Stig_checkMove :: "HexTriGraphOps \<Rightarrow> string \<Rightarrow> bool \<Rightarrow> (unit, StigmergyGame) prog" where
  "Stig_checkMove G m partial =
     bind (Stig_validateMove G m) (\<lambda>result.
     if \<not> valid result then throw (UserFacingError ''VALIDATION_GENERAL'')
     else
       bind (gets (\<lambda>s. \<not> partial \<and> length (stack s) > 1)) (\<lambda>go.
       if \<not> go then ret ()
       else
         bind (Stig_moves G None) (\<lambda>ms.
         if m \<in> set ms then ret ()
         else
           bind (gets (\<lambda>s. \<not> Stig_isButtonActive s \<or> m \<noteq> ''button'')) (\<lambda>fail.
           if fail then throw (UserFacingError ''VALIDATION_FAILSAFE'') else ret ()))))"

text \<open>The part of \<open>move\<close> that changes the board and the auxiliary fields.\<close>

definition Stig_applyMove :: "string \<Rightarrow> (unit, StigmergyGame) prog" where
  "Stig_applyMove m s =
     (let s1 = s\<lparr>results := []\<rparr>;
          s2 =
            (if length (stack s1) = 1 then
               s1\<lparr>komi := Some (parseIntNum m), results := results s1 @ [RKomi (parseIntNum m)]\<rparr>
             else if m = ''pass'' then s1\<lparr>results := results s1 @ [RPass]\<rparr>
             else if m = ''button'' then
               s1\<lparr>buttontaker := Some (currplayer s1), results := results s1 @ [RButton]\<rparr>
             else
               s1\<lparr>results := results s1 @ [if mapHas (board s1) m then RCapture None m
                                            else RPlace None m],
                   board := DAList.update m (currplayer s1) (board s1)\<rparr>)
      in Return () (s2\<lparr>lastmove := Some m, currplayer := Stig_getOtherPlayer s2 (currplayer s2)\<rparr>))"

text \<open>\<open>StigmergyGame.move(m, {partial, trusted})\<close>.\<close>

definition Stig_move :: "HexTriGraphOps \<Rightarrow> string \<Rightarrow> bool \<Rightarrow> bool \<Rightarrow> (unit, StigmergyGame) prog" where
  "Stig_move G m0 partial trusted s =
     (if gameover s then Throw (UserFacingError ''MOVES_GAMEOVER'') s
      else if length m0 = 0 then Return () s
      else (let m = normalizeInput m0
            in bind (if \<not> trusted then Stig_checkMove G m partial else ret ()) (\<lambda>_.
               bind (Stig_applyMove m) (\<lambda>_.
               bind (Stig_updateScores G) (\<lambda>_.
               bind Stig_checkEOG (\<lambda>_. Stig_saveState)))) s))"

subsection \<open>\<open>load\<close> and the constructor\<close>

text \<open>\<open>StigmergyGame.load(idx)\<close>; the index is an integer.\<close>

definition Stig_load :: "int \<Rightarrow> (unit, StigmergyGame) prog" where
  "Stig_load idx0 s =
     (let idx = (if idx0 < 0 then idx0 + int (length (stack s)) else idx0)
      in if idx < 0 \<or> idx \<ge> int (length (stack s))
         then Throw (Error ''Could not load the requested state from the stack.'') s
         else (let state = stack s ! nat idx
               in Return () (s\<lparr>currplayer := st_currplayer state,
                                board := st_board state,
                                lastmove := st_lastmove state,
                                results := st_results state,
                                scores := st_scores state,
                                buttontaker := st_buttontaker state,
                                komi := st_komi state\<rparr>)))"

text \<open>
  \<open>getBoardSize\<close>: the first variant that contains \<open>size\<close> gives the size, by its first
  run of digits (\<open>match(/\d+/)\<close>); without a digit the match is \<open>null\<close> and reading it
  raises. The \<open>isNaN\<close> test below it is reached only when no variant names a size, where
  \<open>boardSize\<close> is still the initial 0.
\<close>

fun includesStr :: "string \<Rightarrow> string \<Rightarrow> bool" where
  "includesStr [] sub = (sub = [])"
| "includesStr (c # cs) sub = (take (length sub) (c # cs) = sub \<or> includesStr cs sub)"

definition firstDigits :: "string \<Rightarrow> string" where
  "firstDigits v = takeWhile isDigit (dropWhile (\<lambda>c. \<not> isDigit c) v)"

definition Stig_getBoardSize :: "(int, StigmergyGame) prog" where
  "Stig_getBoardSize s =
     (if length (variants s) > 0 \<and> length (hd (variants s)) > 0 then
        (let sizeVariants = filter (\<lambda>v. includesStr v ''size'') (variants s)
         in if length sizeVariants > 0 then
              (if firstDigits (hd sizeVariants) = [] then Throw TypeError s
               else Return (int (digitsValue (firstDigits (hd sizeVariants)))) s)
            else Return 8 s)
      else Return 8 s)"

text \<open>The field initialisers of the class, before the constructor body runs.\<close>

definition Stig_fields :: StigmergyGame where
  "Stig_fields =
     \<lparr>numplayers = 2, currplayer = 1, board = DAList.empty, lastmove = None,
      gameover = False, winner = [], variants = [], stack = [], results = [],
      Stig_graph = None, scores = (0, 0), buttontaker = None, komi = None, boardSize = 0\<rparr>"

text \<open>
  The record a game is saved as and resumed from (\<open>IStigmergyState\<close>). The constructor
  also takes its JSON text, which it parses with \<open>reviver\<close> first; the model starts from
  the parsed record.
\<close>

record IStigmergyState =
  sv_game :: string
  sv_numplayers :: int
  sv_variants :: "string list"
  sv_gameover :: bool
  sv_winner :: "int list"
  sv_stack :: "StigMoveState list"

text \<open>The constructor \<open>new StigmergyGame(state, variants)\<close>.\<close>

definition Stig_new :: "IStigmergyState option \<Rightarrow> string list option \<Rightarrow> (unit, StigmergyGame) outcome" where
  "Stig_new state vs =
     bind (case state of
             None \<Rightarrow>
               bind (modify (\<lambda>s. s\<lparr>variants := (case vs of None \<Rightarrow> variants s | Some v \<Rightarrow> v)\<rparr>)) (\<lambda>_.
               modify (\<lambda>s. s\<lparr>stack :=
                 [\<lparr>st_version = ''20240524'', st_results = [], st_currplayer = 1,
                   st_board = DAList.empty, st_lastmove = None, st_scores = (0, 0),
                   st_buttontaker = None, st_komi = None\<rparr>]\<rparr>))
           | Some st \<Rightarrow>
               if sv_game st \<noteq> ''stigmergy''
               then throw (Error ''The Stigmergy engine cannot process a game of'')
               else modify (\<lambda>s. s\<lparr>gameover := sv_gameover st, winner := sv_winner st,
                                     variants := sv_variants st, stack := sv_stack st\<rparr>)) (\<lambda>_.
     bind Stig_getBoardSize (\<lambda>n.
     bind (modify (\<lambda>s. s\<lparr>boardSize := n\<rparr>)) (\<lambda>_.
     bind (Stig_load (-1)) (\<lambda>_.
     bind Stig_buildGraph (\<lambda>_. ret ()))))) Stig_fields"

section \<open>Amazons\<close>

text \<open>
  What Amazons calls and the sources do not hold, as parameters: the two label functions
  of \<open>GameBase\<close> (with the board height as last argument), \<open>RectGrid.bearing\<close> and
  \<open>RectGrid.ray\<close> (the grid is known by its width and height; \<open>bearing\<close> may return
  \<open>undefined\<close>, which the source hands on to \<open>ray\<close>), and the four calls into the
  graph library.
\<close>

datatype Directions = DirN | DirNE | DirE | DirSE | DirS | DirSW | DirW | DirNW

record 'g AmazonsEnv =
  b_coords2algebraic :: "int \<Rightarrow> int \<Rightarrow> int \<Rightarrow> string"
  b_algebraic2coords :: "string \<Rightarrow> int \<Rightarrow> error + (int \<times> int)"
  r_bearing :: "int \<Rightarrow> int \<Rightarrow> int \<Rightarrow> int \<Rightarrow> Directions option"
  r_ray :: "int \<times> int \<Rightarrow> int \<Rightarrow> int \<Rightarrow> Directions option \<Rightarrow> error + (int \<times> int) list"
  u_new :: "'g"
  u_addNode :: "'g \<Rightarrow> string \<Rightarrow> error + 'g"
  u_addEdge :: "'g \<Rightarrow> string \<Rightarrow> string \<Rightarrow> error + 'g"
  u_dropNode :: "'g \<Rightarrow> string \<Rightarrow> error + 'g"

text \<open>\<open>CellContents = 0 | 1 | 2\<close>: a block or the owner of an amazon.\<close>

record 'g AmazonsGame = "(int, int IMoveState) GameBase" +
  Amazons_graph :: "'g"

definition Amazons_coords2algebraic :: "'g AmazonsEnv \<Rightarrow> int \<Rightarrow> int \<Rightarrow> string" where
  "Amazons_coords2algebraic env x y = b_coords2algebraic env x y 10"

definition Amazons_algebraic2coords :: "'g AmazonsEnv \<Rightarrow> string \<Rightarrow> error + (int \<times> int)" where
  "Amazons_algebraic2coords env cell = b_algebraic2coords env cell 10"

subsection \<open>\<open>buildGraph\<close>\<close>

text \<open>A loop whose body may raise, over a local value.\<close>

fun foldE :: "('b \<Rightarrow> 'a \<Rightarrow> error + 'b) \<Rightarrow> 'b \<Rightarrow> 'a list \<Rightarrow> error + 'b" where
  "foldE f acc [] = Inr acc"
| "foldE f acc (x # xs) = (case f acc x of Inl e \<Rightarrow> Inl e | Inr acc' \<Rightarrow> foldE f acc' xs)"

text \<open>The pairs \<open>(row, col)\<close> in the order of the two nested loops.\<close>

definition rowsCols :: "(int \<times> int) list" where
  "rowsCols = concat (map (\<lambda>row. map (\<lambda>col. (row, col)) [0..9]) [0..9])"

text \<open>The edges that one round of the second loop adds, in the order it adds them.\<close>

definition edgesAt :: "'g AmazonsEnv \<Rightarrow> int \<times> int \<Rightarrow> (string \<times> string) list" where
  "edgesAt env rc =
     (let row = fst rc; col = snd rc;
          fromCell = Amazons_coords2algebraic env col row
      in (if col < 9 then [(fromCell, Amazons_coords2algebraic env (col + 1) row)] else [])
       @ (if row > 0 then [(fromCell, Amazons_coords2algebraic env col (row - 1))] else [])
       @ (if row > 0 \<and> col < 9
          then [(fromCell, Amazons_coords2algebraic env (col + 1) (row - 1))] else [])
       @ (if row > 0 \<and> col > 0
          then [(fromCell, Amazons_coords2algebraic env (col - 1) (row - 1))] else []))"

definition Amazons_buildGraph :: "'g AmazonsEnv \<Rightarrow> (string, int) alist \<Rightarrow> error + 'g" where
  "Amazons_buildGraph env b =
     (case foldE (\<lambda>g rc. u_addNode env g (Amazons_coords2algebraic env (snd rc) (fst rc)))
                 (u_new env) rowsCols of
        Inl e \<Rightarrow> Inl e
      | Inr g1 \<Rightarrow>
          (case foldE (\<lambda>g e. u_addEdge env g (fst e) (snd e)) g1
                      (concat (map (edgesAt env) rowsCols)) of
             Inl e \<Rightarrow> Inl e
           | Inr g2 \<Rightarrow>
               foldE (\<lambda>g kv. if snd kv = 0 then u_dropNode env g (fst kv) else Inr g)
                     g2 (entries b)))"

subsection \<open>\<open>load\<close>\<close>

text \<open>
  \<open>AmazonsGame.load(idx)\<close>; the index is an integer, so the entry read after the
  bounds check is never \<open>undefined\<close>. The graph is rebuilt last, after the four fields
  have been assigned.
\<close>

definition Amazons_load :: "'g AmazonsEnv \<Rightarrow> int \<Rightarrow> (unit, 'g AmazonsGame) prog" where
  "Amazons_load env idx0 s =
     (let idx = (if idx0 < 0 then idx0 + int (length (stack s)) else idx0)
      in if idx < 0 \<or> idx \<ge> int (length (stack s))
         then Throw (Error ''Could not load the requested state from the stack.'') s
         else (let state = stack s ! nat idx;
                   s1 = s\<lparr>results := st_results state,
                          currplayer := st_currplayer state,
                          board := st_board state,
                          lastmove := st_lastmove state\<rparr>
               in case Amazons_buildGraph env (board s1) of
                    Inl e \<Rightarrow> Throw e s1
                  | Inr g \<Rightarrow> Return () (s1\<lparr>Amazons_graph := g\<rparr>)))"

subsection \<open>\<open>validateMove\<close>\<close>

text \<open>
  The loop "nothing in the way": the cells of the ray before \<open>stop\<close> are tested, the
  first one that \<open>blocked\<close> holds of is the obstruction.
\<close>

fun obstruction :: "(string \<Rightarrow> bool) \<Rightarrow> string \<Rightarrow> string list \<Rightarrow> string option" where
  "obstruction blocked stop [] = None"
| "obstruction blocked stop (cell # cells) =
     (if cell = stop then None
      else if blocked cell then Some cell
      else obstruction blocked stop cells)"

text \<open>\<open>grid.ray(x, y, dir).map(pt => AmazonsGame.coords2algebraic(...pt))\<close> on a 10x10 grid.\<close>

definition Amazons_rayCells ::
  "'g AmazonsEnv \<Rightarrow> int \<Rightarrow> int \<Rightarrow> int \<Rightarrow> int \<Rightarrow> (string list, 'g AmazonsGame) prog" where
  "Amazons_rayCells env x1 y1 x2 y2 =
     bind (ret (r_bearing env x1 y1 x2 y2)) (\<lambda>dir.
     bind (lift (r_ray env (10, 10) x1 y1 dir)) (\<lambda>r.
     ret (map (\<lambda>pt. Amazons_coords2algebraic env (fst pt) (snd pt)) r)))"

text \<open>The first loop: every part of the move must be a label.\<close>

definition Amazons_cellsOk :: "'g AmazonsEnv \<Rightarrow> string list \<Rightarrow> bool" where
  "Amazons_cellsOk env cells = list_all (\<lambda>cell. \<not> isl (Amazons_algebraic2coords env cell)) cells"

text \<open>The block \<open>if (block !== undefined)\<close>.\<close>

definition Amazons_validateBlock ::
  "'g AmazonsEnv \<Rightarrow> string \<Rightarrow> string \<Rightarrow> string \<Rightarrow> (IValidationResult, 'g AmazonsGame) prog" where
  "Amazons_validateBlock env from to block =
     bind (lift (Amazons_algebraic2coords env to)) (\<lambda>pTo.
     bind (lift (Amazons_algebraic2coords env block)) (\<lambda>pBlock.
     bind (gets (\<lambda>s. mapHas (board s) block \<and> block \<noteq> from)) (\<lambda>occ.
     if occ then ret (verdict False ''apgames:validation._general.OCCUPIED'' None None)
     else
       bind (Amazons_rayCells env (fst pTo) (snd pTo) (fst pBlock) (snd pBlock)) (\<lambda>ray.
       if block \<notin> set ray
       then ret (verdict False ''apgames:validation.amazons.STRAIGHTLINE'' None None)
       else
         bind (gets (\<lambda>s. obstruction (\<lambda>cell. mapHas (board s) cell \<and> cell \<noteq> from) block ray)) (\<lambda>ob.
         case ob of
           Some cell \<Rightarrow> ret (verdict False ''apgames:validation._general.OBSTRUCTED'' None None)
         | None \<Rightarrow> ret (verdict True ''apgames:validation._general.VALID_MOVE'' (Some 1) None))))))"

text \<open>The block \<open>if (to !== undefined)\<close>, and what follows it.\<close>

definition Amazons_validateTo ::
  "'g AmazonsEnv \<Rightarrow> string \<Rightarrow> string \<Rightarrow> string option \<Rightarrow> (IValidationResult, 'g AmazonsGame) prog" where
  "Amazons_validateTo env from to block =
     bind (lift (Amazons_algebraic2coords env from)) (\<lambda>pFrom.
     bind (lift (Amazons_algebraic2coords env to)) (\<lambda>pTo.
     bind (gets (\<lambda>s. mapHas (board s) to)) (\<lambda>occ.
     if occ then ret (verdict False ''apgames:validation._general.OCCUPIED'' None None)
     else
       bind (Amazons_rayCells env (fst pFrom) (snd pFrom) (fst pTo) (snd pTo)) (\<lambda>ray.
       if to \<notin> set ray
       then ret (verdict False ''apgames:validation.amazons.STRAIGHTLINE'' None None)
       else
         bind (gets (\<lambda>s. obstruction (\<lambda>cell. mapHas (board s) cell) to ray)) (\<lambda>ob.
         case ob of
           Some cell \<Rightarrow> ret (verdict False ''apgames:validation._general.OBSTRUCTED'' None None)
         | None \<Rightarrow>
             (case block of
                None \<Rightarrow> ret (verdict True ''apgames:validation.amazons.POTENTIAL_BLOCK''
                               (Some (-1)) (Some True))
              | Some b \<Rightarrow> Amazons_validateBlock env from to b))))))"

text \<open>
  \<open>AmazonsGame.validateMove\<close>. The split at \<open>-\<close> and \<open>/\<close> always has a first part, so
  \<open>from\<close> is never \<open>undefined\<close>; \<open>to\<close> and \<open>block\<close> are the second and third part when
  there are such.
\<close>

definition Amazons_validateMove ::
  "'g AmazonsEnv \<Rightarrow> string \<Rightarrow> (IValidationResult, 'g AmazonsGame) prog" where
  "Amazons_validateMove env m =
     (if length m = 0 then ret (verdict False ''apgames:validation._general.EMPTYSTRING'' None None)
      else
        (let parts = splitOn (\<lambda>c. c = CHR ''-'' \<or> c = CHR ''/'') m;
             from = hd parts;
             to = (if length parts > 1 then Some (parts ! 1) else None);
             block = (if length parts > 2 then Some (parts ! 2) else None)
         in if \<not> Amazons_cellsOk env (take 3 parts)
            then ret (verdict False ''apgames:validation._general.INVALIDCELL'' None None)
            else
              bind (gets (\<lambda>s. mapHas (board s) from)) (\<lambda>present.
              if \<not> present
              then ret (verdict False ''apgames:validation._general.NONEXISTENT'' None None)
              else
                bind (gets (\<lambda>s. DAList.lookup (board s) from \<noteq> Some (currplayer s))) (\<lambda>foreign.
                if foreign
                then ret (verdict False ''apgames:validation._general.UNCONTROLLED'' None None)
                else
                  (case to of
                     None \<Rightarrow> ret (verdict True ''apgames:validation.amazons.POTENTIAL_MOVE''
                                    (Some (-1)) (Some False))
                   | Some t \<Rightarrow> Amazons_validateTo env from t block)))))"

section \<open>Serialization: \<open>replacer\<close> and \<open>reviver\<close>\<close>

text \<open>
  The values the two functions meet: \<open>undefined\<close>, \<open>null\<close>, booleans, numbers, strings,
  arrays, plain objects (their own properties in enumeration order, keys distinct),
  \<open>Map\<close>s (entries in insertion order) and \<open>Set\<close>s (elements in insertion order).
\<close>

datatype jsval =
    VUndefined
  | VNull
  | VBool bool
  | VNum number
  | VStr string
  | VArr "jsval list"
  | VObj "(string \<times> jsval) list"
  | VMap "(jsval \<times> jsval) list"
  | VSet "jsval list"

text \<open>
  What a JSON text denotes. \<open>JSON.stringify\<close> writes the text of such a tree and
  \<open>JSON.parse\<close> reads the same tree back from it (a finite number is written with the
  digits that read back to it; the tree has finite numbers only); the model passes the tree instead of the text.
\<close>

datatype json =
    JNull
  | JBool bool
  | JNum rat
  | JStr string
  | JArr "json list"
  | JObj "(string \<times> json) list"

text \<open>\<open>replacer(key, value)\<close>; the key is not used.\<close>

definition replacer :: "jsval \<Rightarrow> jsval" where
  "replacer v =
     (case v of
        VMap es \<Rightarrow> VObj [(''dataType'', VStr ''Map''),
                         (''value'', VArr (map (\<lambda>e. VArr [fst e, snd e]) es))]
      | VSet xs \<Rightarrow> VObj [(''dataType'', VStr ''Set''), (''value'', VArr xs)]
      | _ \<Rightarrow> v)"

text \<open>A measure under which the parts of \<open>replacer v\<close> are smaller than \<open>v\<close>.\<close>

fun weight :: "jsval \<Rightarrow> nat" where
  "weight (VArr xs) = 1 + sum_list (map weight xs)"
| "weight (VObj kvs) = 1 + sum_list (map (\<lambda>kv. weight (snd kv)) kvs)"
| "weight (VMap es) = 3 + sum_list (map (\<lambda>e. 2 + weight (fst e) + weight (snd e)) es)"
| "weight (VSet xs) = 3 + sum_list (map weight xs)"
| "weight v = 1"

text \<open>
  \<open>JSON.stringify(x, replacer)\<close> below the top: the replacer is applied to the value
  first, then the result is written. \<open>undefined\<close> has no text (\<open>None\<close>): in an array it
  is written as \<open>null\<close>, in an object the property is left out. \<open>NaN\<close> and the two
  infinities are written as \<open>null\<close>, the negative zero as \<open>0\<close>. A \<open>Map\<close> or \<open>Set\<close> that reached the writer would be written as an object
  without properties.
\<close>

function serialize :: "jsval \<Rightarrow> json option" where
  "serialize v =
     (case replacer v of
        VUndefined \<Rightarrow> None
      | VNull \<Rightarrow> Some JNull
      | VBool b \<Rightarrow> Some (JBool b)
      | VNum n \<Rightarrow>
          (case n of Num r \<Rightarrow> Some (JNum r) | NegZero \<Rightarrow> Some (JNum 0) | _ \<Rightarrow> Some JNull)
      | VStr s \<Rightarrow> Some (JStr s)
      | VArr xs \<Rightarrow>
          Some (JArr (map (\<lambda>x. case serialize x of None \<Rightarrow> JNull | Some j \<Rightarrow> j) xs))
      | VObj kvs \<Rightarrow>
          Some (JObj (concat (map (\<lambda>kv. case serialize (snd kv) of
                                            None \<Rightarrow> []
                                          | Some j \<Rightarrow> [(fst kv, j)]) kvs)))
      | VMap es \<Rightarrow> Some (JObj [])
      | VSet xs \<Rightarrow> Some (JObj []))"
  by pat_completeness auto

termination serialize
proof -
  have elem: "weight x \<le> sum_list (map weight xs)" if "x \<in> set xs" for x xs
    using that by (induction xs) auto
  have member: "weight (snd kv) \<le> sum_list (map (\<lambda>kv. weight (snd kv)) kvs)"
    if "kv \<in> set kvs" for kv :: "string \<times> jsval" and kvs
    using that by (induction kvs) auto
  have pairs: "weight (VArr (map (\<lambda>e. VArr [fst e, snd e]) es))
               < 3 + sum_list (map (\<lambda>e. 2 + weight (fst e) + weight (snd e)) es)" for es
    by (induction es) auto
  have arr: "weight x < weight v" if "replacer v = VArr xs" "x \<in> set xs" for v xs x
    using that by (cases v) (auto simp: replacer_def dest: elem)
  have obj: "weight (snd kv) < weight v" if r: "replacer v = VObj kvs" and m: "kv \<in> set kvs"
    for v kvs kv
  proof (cases v)
    case (VObj kvs')
    with r m show ?thesis by (auto simp: replacer_def dest: member)
  next
    case (VMap es)
    with r m have "kv = (''dataType'', VStr ''Map'')
        \<or> kv = (''value'', VArr (map (\<lambda>e. VArr [fst e, snd e]) es))"
      by (auto simp: replacer_def)
    with VMap pairs [of es] show ?thesis
      by (elim disjE) (simp_all del: weight.simps(1) add: comp_def)
  next
    case (VSet xs)
    with r m show ?thesis by (auto simp: replacer_def)
  qed (use r in \<open>auto simp: replacer_def\<close>)
  show ?thesis
    by (relation "measure weight") (auto dest: arr obj)
qed

subsection \<open>\<open>new Map(iterable)\<close> and \<open>new Set(iterable)\<close>\<close>

text \<open>
  Keys and elements are compared by \<open>SameValueZero\<close>: primitives by value, objects by
  identity. The objects that \<open>JSON.parse\<close> hands to the reviver are all new, so two of
  them are never the same key.
\<close>

definition isPrimitive :: "jsval \<Rightarrow> bool" where
  "isPrimitive v =
     (case v of VArr _ \<Rightarrow> False | VObj _ \<Rightarrow> False | VMap _ \<Rightarrow> False | VSet _ \<Rightarrow> False
      | _ \<Rightarrow> True)"

text \<open>
  A \<open>Map\<close> and a \<open>Set\<close> keep the positive zero for the negative one; with that, two
  primitives are the same key exactly when they are equal (\<open>NaN\<close> is the same key as
  \<open>NaN\<close>).
\<close>

definition keyOf :: "jsval \<Rightarrow> jsval" where
  "keyOf k = (if k = VNum NegZero then VNum (Num 0) else k)"

text \<open>\<open>map.set(k, v)\<close>: a present primitive key keeps its place.\<close>

fun mapPut :: "(jsval \<times> jsval) list \<Rightarrow> jsval \<Rightarrow> jsval \<Rightarrow> (jsval \<times> jsval) list" where
  "mapPut [] k v = [(k, v)]"
| "mapPut (e # es) k v =
     (if isPrimitive k \<and> fst e = k then (k, v) # es else e # mapPut es k v)"

definition mapSet :: "(jsval \<times> jsval) list \<Rightarrow> jsval \<Rightarrow> jsval \<Rightarrow> (jsval \<times> jsval) list" where
  "mapSet es k v = mapPut es (keyOf k) v"

definition setAdd :: "jsval list \<Rightarrow> jsval \<Rightarrow> jsval list" where
  "setAdd xs x =
     (let y = keyOf x in if isPrimitive y \<and> y \<in> set xs then xs else xs @ [y])"

text \<open>Reading a property of a value; an absent property reads \<open>undefined\<close>.\<close>

definition getProp :: "jsval \<Rightarrow> string \<Rightarrow> jsval" where
  "getProp v name =
     (case v of
        VObj kvs \<Rightarrow> (case map_of kvs name of None \<Rightarrow> VUndefined | Some x \<Rightarrow> x)
      | VArr xs \<Rightarrow>
          (if name = ''0'' \<and> length xs > 0 then xs ! 0
           else if name = ''1'' \<and> length xs > 1 then xs ! 1
           else VUndefined)
      | _ \<Rightarrow> VUndefined)"

text \<open>
  What iterating a value yields: the elements of an array or set, the entries of a map
  as two-element arrays, the characters of a string; \<open>undefined\<close> and \<open>null\<close> stand for
  no iterable at all and give nothing; every other value is not iterable.
\<close>

definition iterate :: "jsval \<Rightarrow> error + jsval list" where
  "iterate v =
     (case v of
        VUndefined \<Rightarrow> Inr []
      | VNull \<Rightarrow> Inr []
      | VArr xs \<Rightarrow> Inr xs
      | VSet xs \<Rightarrow> Inr xs
      | VMap es \<Rightarrow> Inr (map (\<lambda>e. VArr [fst e, snd e]) es)
      | VStr s \<Rightarrow> Inr (map (\<lambda>c. VStr [c]) s)
      | _ \<Rightarrow> Inl TypeError)"

text \<open>\<open>new Map(iterable)\<close>: every item must be an object; its properties 0 and 1 are the entry.\<close>

definition newMap :: "jsval \<Rightarrow> error + jsval" where
  "newMap v =
     (case iterate v of
        Inl e \<Rightarrow> Inl e
      | Inr items \<Rightarrow>
          (case foldE (\<lambda>es item. if isPrimitive item then Inl TypeError
                                  else Inr (mapSet es (getProp item ''0'') (getProp item ''1'')))
                      [] items of
             Inl e \<Rightarrow> Inl e
           | Inr es \<Rightarrow> Inr (VMap es)))"

definition newSet :: "jsval \<Rightarrow> error + jsval" where
  "newSet v =
     (case iterate v of
        Inl e \<Rightarrow> Inl e
      | Inr items \<Rightarrow> Inr (VSet (foldl setAdd [] items)))"

text \<open>
  \<open>reviver(key, value)\<close>; the key is not used. An array has no property \<open>dataType\<close>, so
  only a plain object can be turned into a \<open>Map\<close> or \<open>Set\<close>.
\<close>

definition reviver :: "jsval \<Rightarrow> error + jsval" where
  "reviver v =
     (case v of
        VObj kvs \<Rightarrow>
          (if getProp v ''dataType'' = VStr ''Map'' then newMap (getProp v ''value'')
           else if getProp v ''dataType'' = VStr ''Set'' then newSet (getProp v ''value'')
           else Inr v)
      | _ \<Rightarrow> Inr v)"

text \<open>The first exception of a sequence of calls, or all their results.\<close>

fun collect :: "(error + 'a) list \<Rightarrow> error + 'a list" where
  "collect [] = Inr []"
| "collect (r # rs) =
     (case r of
        Inl e \<Rightarrow> Inl e
      | Inr x \<Rightarrow> (case collect rs of Inl e \<Rightarrow> Inl e | Inr xs \<Rightarrow> Inr (x # xs)))"

text \<open>
  \<open>JSON.parse(text, reviver)\<close> on the tree of the text: the parts of an array or object
  are revived first, in order, then the reviver is called on the array or object itself.
\<close>

fun revive :: "json \<Rightarrow> error + jsval" where
  "revive JNull = reviver VNull"
| "revive (JBool b) = reviver (VBool b)"
| "revive (JNum r) = reviver (VNum (Num r))"
| "revive (JStr s) = reviver (VStr s)"
| "revive (JArr xs) =
     (case collect (map revive xs) of
        Inl e \<Rightarrow> Inl e
      | Inr ys \<Rightarrow> reviver (VArr ys))"
| "revive (JObj kvs) =
     (case collect (map (\<lambda>kv. case revive (snd kv) of
                                  Inl e \<Rightarrow> Inl e
                                | Inr y \<Rightarrow> Inr (fst kv, y)) kvs) of
        Inl e \<Rightarrow> Inl e
      | Inr kvs' \<Rightarrow> reviver (VObj kvs'))"

text \<open>
  \<open>JSON.parse(JSON.stringify(x, replacer), reviver)\<close>. When \<open>stringify\<close> returns
  \<open>undefined\<close>, \<open>parse\<close> reads the text \<open>undefined\<close> and raises a \<open>SyntaxError\<close>.
\<close>

definition roundTrip :: "jsval \<Rightarrow> error + jsval" where
  "roundTrip x = (case serialize x of None \<Rightarrow> Inl SyntaxError | Some j \<Rightarrow> revive j)"

section \<open>Fingerprints: \<open>x2uid\<close>\<close>

text \<open>
  Modelled from the spec: \<open>stringify\<close> (the package json-stringify-deterministic) and
  \<open>fnv\<close> (the package fnv-plus) are not among the sources. Of the first the spec says
  that "object keys are sorted before encoding", of the second that it is "a fixed-seed,
  non-cryptographic fixed-width hash (FNV family) over the canonical text, rendered as a
  hex string". The model writes JSON text with the members of every object in the order
  of their keys; the hash is the 32-bit FNV-1a, its offset basis the FNV-0 hash of the
  seed; the text of a number is a parameter.
\<close>

definition hexDigit :: "nat \<Rightarrow> char" where
  "hexDigit n = ''0123456789abcdef'' ! (n mod 16)"

text \<open>The quoting of \<open>JSON.stringify\<close> for the code units 0..255.\<close>

definition quoteChar :: "char \<Rightarrow> string" where
  "quoteChar c =
     (let n = (of_char c :: nat)
      in if n = 34 then [CHR 0x5C, CHR 0x22]
         else if n = 92 then [CHR 0x5C, CHR 0x5C]
         else if n = 8 then [CHR 0x5C, CHR ''b'']
         else if n = 9 then [CHR 0x5C, CHR ''t'']
         else if n = 10 then [CHR 0x5C, CHR ''n'']
         else if n = 12 then [CHR 0x5C, CHR ''f'']
         else if n = 13 then [CHR 0x5C, CHR ''r'']
         else if n < 32 then [CHR 0x5C, CHR ''u'', CHR ''0'', CHR ''0'',
                              hexDigit (n div 16), hexDigit n]
         else [c])"

definition quote :: "string \<Rightarrow> string" where
  "quote s = [CHR 0x22] @ concat (map quoteChar s) @ [CHR 0x22]"

text \<open>The canonical text: the members of an object are written in the order of their keys.\<close>

fun stringify :: "(rat \<Rightarrow> string) \<Rightarrow> json \<Rightarrow> string" where
  "stringify numText JNull = ''null''"
| "stringify numText (JBool b) = (if b then ''true'' else ''false'')"
| "stringify numText (JNum r) = numText r"
| "stringify numText (JStr s) = quote s"
| "stringify numText (JArr xs) = ''['' @ joinWith '','' (map (stringify numText) xs) @ '']''"
| "stringify numText (JObj kvs) =
     ''{'' @ joinWith '',''
              (map (\<lambda>kt. quote (fst kt) @ '':'' @ snd kt)
                   (sort_key fst (map (\<lambda>kv. (fst kv, stringify numText (snd kv))) kvs)))
     @ ''}''"

definition fnvPrime :: "32 word" where
  "fnvPrime = 16777619"

text \<open>\<open>fnv.seed(s)\<close>: the offset basis is the FNV-0 hash of the seed.\<close>

definition fnvSeed :: "string \<Rightarrow> 32 word" where
  "fnvSeed seed = foldl (\<lambda>h c. xor (h * fnvPrime) (of_nat (of_char c))) 0 seed"

text \<open>\<open>fnv.hash(text)\<close>: FNV-1a from the offset basis.\<close>

definition fnvHash :: "32 word \<Rightarrow> string \<Rightarrow> 32 word" where
  "fnvHash offset text = foldl (\<lambda>h c. xor h (of_nat (of_char c)) * fnvPrime) offset text"

text \<open>\<open>hash.hex()\<close>: eight hexadecimal digits, the highest first.\<close>

definition hex :: "32 word \<Rightarrow> string" where
  "hex h = map (\<lambda>i. hexDigit (unat (and (drop_bit (4 * i) h) 15))) [7, 6, 5, 4, 3, 2, 1, 0]"

text \<open>\<open>x2uid\<close>: seed, hash the canonical text, render.\<close>

definition x2uid :: "(rat \<Rightarrow> string) \<Rightarrow> json \<Rightarrow> string" where
  "x2uid numText x = hex (fnvHash (fnvSeed ''apgames'') (stringify numText x))"

section \<open>Notions the properties are stated with\<close>

text \<open>The position in the stack that the index \<open>i\<close> of \<open>load\<close> names.\<close>

definition stackIndex :: "'a list \<Rightarrow> int \<Rightarrow> nat" where
  "stackIndex st i = nat (if i < 0 then i + int (length st) else i)"

text \<open>
  The graph field of a Stigmergy object holds the graph of the object's board size. The
  constructor ends by building it, and nothing assigns the field but \<open>buildGraph\<close>.
\<close>

definition Stig_built :: "StigmergyGame \<Rightarrow> bool" where
  "Stig_built s = (Stig_graph s = Some (HexTriGraph (boardSize s) ((boardSize s * 2) - 1)))"


text \<open>
  A value as the engine can hold it: the keys of an object are distinct, no primitive
  is twice a key of a \<open>Map\<close> or twice an element of a \<open>Set\<close>.
\<close>

fun wellFormed :: "jsval \<Rightarrow> bool" where
  "wellFormed (VArr xs) = list_all wellFormed xs"
| "wellFormed (VObj kvs) =
     (distinct (map fst kvs) \<and> list_all (\<lambda>kv. wellFormed (snd kv)) kvs)"
| "wellFormed (VMap es) =
     (distinct (filter isPrimitive (map fst es))
      \<and> list_all (\<lambda>e. wellFormed (fst e) \<and> wellFormed (snd e)) es)"
| "wellFormed (VSet xs) = (distinct (filter isPrimitive xs) \<and> list_all wellFormed xs)"
| "wellFormed v = True"

text \<open>
  A value that the encoding can carry: no \<open>undefined\<close> anywhere in it, every number
  in it finite and not the negative zero, and no plain object in it whose property
  \<open>dataType\<close> is the string \<open>Map\<close> or \<open>Set\<close>.
\<close>

fun carried :: "jsval \<Rightarrow> bool" where
  "carried VUndefined = False"
| "carried (VNum n) = (case n of Num r \<Rightarrow> True | _ \<Rightarrow> False)"
| "carried (VArr xs) = list_all carried xs"
| "carried (VObj kvs) =
     (getProp (VObj kvs) ''dataType'' \<noteq> VStr ''Map''
      \<and> getProp (VObj kvs) ''dataType'' \<noteq> VStr ''Set''
      \<and> list_all (\<lambda>kv. carried (snd kv)) kvs)"
| "carried (VMap es) = list_all (\<lambda>e. carried (fst e) \<and> carried (snd e)) es"
| "carried (VSet xs) = list_all carried xs"
| "carried v = True"

text \<open>The tree written for a value that stands in an array.\<close>

definition enc :: "jsval \<Rightarrow> json" where
  "enc x = (case serialize x of None \<Rightarrow> JNull | Some j \<Rightarrow> j)"

text \<open>The keys of every object in the tree are distinct.\<close>

fun distinctKeys :: "json \<Rightarrow> bool" where
  "distinctKeys (JArr xs) = list_all distinctKeys xs"
| "distinctKeys (JObj kvs) =
     (distinct (map fst kvs) \<and> list_all (\<lambda>kv. distinctKeys (snd kv)) kvs)"
| "distinctKeys v = True"

text \<open>
  Two trees are the same value but for the order of the keys in their objects: arrays
  agree position by position, objects have as many members and every member of the one
  has a member of the other with the same key and an agreeing value.
\<close>

fun sameButKeyOrder :: "json \<Rightarrow> json \<Rightarrow> bool" where
  "sameButKeyOrder (JArr xs) (JArr ys) = list_all2 sameButKeyOrder xs ys"
| "sameButKeyOrder (JObj kvs) (JObj kvs') =
     (length kvs = length kvs'
      \<and> (\<forall>kv \<in> set kvs. \<exists>kv' \<in> set kvs'.
            fst kv = fst kv' \<and> sameButKeyOrder (snd kv) (snd kv')))"
| "sameButKeyOrder x y = (x = y)"

section \<open>Small concrete instances\<close>

text \<open>
  Instances on which the theorems below are tried: a board graph of two adjacent cells
  for Cephalopod, a Cephalopod object around a given board, the Stigmergy object
  that the constructor returns for a new game, and a 10x10 grid for Amazons.
\<close>

definition twoCells :: IGraphOps where
  "twoCells =
     \<lparr>g_listCells = (\<lambda>g. [''a1'', ''b1'']),
      g_neighbours = (\<lambda>g c. if c = ''a1'' then [''b1''] else if c = ''b1'' then [''a1''] else [])\<rparr>"

definition cephWith :: "(string, CellContents) alist \<Rightarrow> CephalopodGame" where
  "cephWith b =
     \<lparr>numplayers = 2, currplayer = 1, board = b, lastmove = None, gameover = False,
      winner = [], variants = [],
      stack = [\<lparr>st_version = ''20211113'', st_results = [], st_currplayer = 1,
                st_board = b, st_lastmove = None\<rparr>],
      results = [], Ceph_graph = SquareOrthGraph 5 5\<rparr>"

definition boardOf :: "(string \<times> 'c) list \<Rightarrow> (string, 'c) alist" where
  "boardOf kvs = foldl (\<lambda>b kv. DAList.update (fst kv) (snd kv) b) DAList.empty kvs"

definition Stig_fresh :: StigmergyGame where
  "Stig_fresh = stateOf (Stig_new None None)"

text \<open>
  A stand-in on the 10x10 board for what Amazons calls and the sources do not hold:
  the labels of \<open>GameBase\<close>, \<open>RectGrid\<close> and the graph library.
\<close>

text \<open>
  Modelled from the spec: a label is a column letter followed by the row number, rows
  counted from the bottom (\<open>d1\<close> is \<open>(3, 9)\<close>, \<open>d10\<close> is \<open>(3, 0)\<close>).
\<close>

definition gridLabel :: "int \<Rightarrow> int \<Rightarrow> int \<Rightarrow> string" where
  "gridLabel x y h =
     (if 0 \<le> x \<and> x < 26 then [columnLabels ! nat x] else ''undefined'') @ toString (h - y)"

text \<open>
  Modelled from the spec: a label that is not a letter followed by digits, or that
  names a row off the board, raises.
\<close>

definition gridCoords :: "string \<Rightarrow> int \<Rightarrow> error + (int \<times> int)" where
  "gridCoords cell h =
     (case cell of
        [] \<Rightarrow> Inl (Error ''Invalid cell: '')
      | c # rest \<Rightarrow>
          (let x = indexOf columnLabels c
           in if x < 0 then Inl (Error (''Invalid cell: '' @ cell))
              else (case parseInt10 rest of
                      None \<Rightarrow> Inl (Error (''Invalid cell: '' @ cell))
                    | Some n \<Rightarrow>
                        if n < 1 \<or> n > h then Inl (Error (''Invalid cell: '' @ cell))
                        else Inr (x, h - n))))"

text \<open>
  Modelled from the spec: the bearing of one point from another is the compass
  direction of their difference; it is \<open>undefined\<close> when the two points coincide (the
  source strips this case from the type with \<open>!\<close>).
\<close>

definition gridBearing :: "int \<Rightarrow> int \<Rightarrow> int \<Rightarrow> int \<Rightarrow> Directions option" where
  "gridBearing x1 y1 x2 y2 =
     (let dx = x2 - x1; dy = y2 - y1
      in if dx = 0 \<and> dy = 0 then None
         else Some (if dx = 0 then (if dy < 0 then DirN else DirS)
                    else if dy = 0 then (if dx > 0 then DirE else DirW)
                    else if dx > 0 then (if dy < 0 then DirNE else DirSE)
                    else (if dy < 0 then DirNW else DirSW)))"

text \<open>Modelled from the spec: one step in a direction, north being up the rows.\<close>

fun gridStep :: "Directions \<Rightarrow> int \<times> int" where
  "gridStep DirN = (0, -1)"
| "gridStep DirNE = (1, -1)"
| "gridStep DirE = (1, 0)"
| "gridStep DirSE = (1, 1)"
| "gridStep DirS = (0, 1)"
| "gridStep DirSW = (-1, 1)"
| "gridStep DirW = (-1, 0)"
| "gridStep DirNW = (-1, -1)"

text \<open>
  Modelled from the spec: a ray starts next to its source, walks in its direction to
  the edge of the grid and leaves out the source; one without a direction raises.
\<close>

definition gridRay ::
  "int \<times> int \<Rightarrow> int \<Rightarrow> int \<Rightarrow> Directions option \<Rightarrow> error + (int \<times> int) list" where
  "gridRay wh x y dir =
     (case dir of
        None \<Rightarrow> Inl (Error ''Invalid direction'')
      | Some d \<Rightarrow>
          Inr (takeWhile (\<lambda>p. 0 \<le> fst p \<and> fst p < fst wh \<and> 0 \<le> snd p \<and> snd p < snd wh)
                 (map (\<lambda>k. (x + k * fst (gridStep d), y + k * snd (gridStep d)))
                      [1..max (fst wh) (snd wh)])))"

text \<open>
  Modelled from the spec: the stand-in. A graph is the list of its nodes; edges are not
  recorded, and no call into the graph library raises.
\<close>

definition gridEnv :: "string list AmazonsEnv" where
  "gridEnv =
     \<lparr>b_coords2algebraic = gridLabel,
      b_algebraic2coords = gridCoords,
      r_bearing = gridBearing,
      r_ray = gridRay,
      u_new = [],
      u_addNode = (\<lambda>g n. Inr (g @ [n])),
      u_addEdge = (\<lambda>g a b. Inr g),
      u_dropNode = (\<lambda>g n. Inr (removeAll n g))\<rparr>"

definition amazonsWith :: "int IMoveState list \<Rightarrow> string list AmazonsGame" where
  "amazonsWith st =
     \<lparr>numplayers = 2, currplayer = 1, board = DAList.empty, lastmove = None, gameover = False,
      winner = [], variants = [], stack = st, results = [], Amazons_graph = []\<rparr>"

definition snap :: "int \<Rightarrow> (string \<times> int) list \<Rightarrow> string option \<Rightarrow> int IMoveState" where
  "snap p kvs lm =
     \<lparr>st_version = ''20211005'', st_results = [], st_currplayer = p, st_board = boardOf kvs,
      st_lastmove = lm\<rparr>"

text \<open>
  The Amazons object that the constructor returns for a new game: the stack holds the
  one snapshot \<open>fresh\<close> with the eight amazons, and \<open>load()\<close> has run.
\<close>

definition Amazons_start :: "string list AmazonsGame" where
  "Amazons_start =
     stateOf (Amazons_load gridEnv (-1)
       (amazonsWith [snap 1 [(''d10'', 2), (''g10'', 2), (''a7'', 2), (''j7'', 2),
                             (''a4'', 1), (''j4'', 1), (''d1'', 1), (''g1'', 1)] None]))"

text \<open>
  The Cephalopod object on the two-cell graph after the first player has placed a die
  on \<open>a1\<close> of the empty board.
\<close>

definition Ceph_afterA1 :: CephalopodGame where
  "Ceph_afterA1 = stateOf (Ceph_move twoCells ''a1'' (cephWith DAList.empty))"

text \<open>
  A stand-in for \<open>HexTriGraph\<close> with the two adjacent cells \<open>a1\<close> and \<open>a2\<close> in one row.
\<close>

definition twoHex :: HexTriGraphOps where
  "twoHex =
     \<lparr>h_algebraic2coords =
        (\<lambda>g c. if c = ''a1'' then Inr (0, 0) else if c = ''a2'' then Inr (1, 0)
                else Inl (Error ''invalid label'')),
      h_coords2algebraic =
        (\<lambda>g x y. if y = 0 \<and> x = 0 then Inr ''a1'' else if y = 0 \<and> x = 1 then Inr ''a2''
                  else Inl (Error ''invalid coordinates'')),
      h_neighbours = (\<lambda>g c. if c = ''a1'' then Inr [''a2''] else Inr [''a1'']),
      h_ray = (\<lambda>g x y d. if x = 0 \<and> d = E then Inr [(1, 0)]
                          else if x = 1 \<and> d = W then Inr [(0, 0)] else Inr []),
      h_listCells = (\<lambda>g. Inr [''a1'', ''a2''])\<rparr>"

text \<open>
  Two later Stigmergy objects on the two-cell graph: after the first player has named
  a komi of 5, and after the second player has then passed.
\<close>

definition Stig_afterKomi :: StigmergyGame where
  "Stig_afterKomi = stateOf (Stig_move twoHex ''5'' False False Stig_fresh)"

definition Stig_afterPass :: StigmergyGame where
  "Stig_afterPass = stateOf (Stig_move twoHex ''pass'' False False Stig_afterKomi)"

section \<open>Properties of the Chase labels\<close>

lemma digit_not_space: "isDigit d \<Longrightarrow> \<not> isWhiteSpace d"
  by (auto simp: isDigit_def isWhiteSpace_def)

lemma digit_not_sign: "isDigit d \<Longrightarrow> d \<noteq> CHR ''-'' \<and> d \<noteq> CHR ''+''"
  by (auto simp: isDigit_def)

lemma sign_not_space: "\<not> isWhiteSpace CHR ''-''" "\<not> isWhiteSpace CHR ''+''"
  by (simp_all add: isWhiteSpace_def)

lemma parseInt10_None_iff: "parseInt10 s = None \<longleftrightarrow> \<not> numberPrefix s"
proof
  assume n: "parseInt10 s = None"
  show "\<not> numberPrefix s"
  proof
    assume "numberPrefix s"
    then obtain ws sg d rest where s: "s = ws @ sg @ d # rest"
      and w: "\<forall>c \<in> set ws. isWhiteSpace c"
      and sg: "sg = [] \<or> sg = ''+'' \<or> sg = ''-''" and d: "isDigit d"
      unfolding numberPrefix_def list_all_iff by blast
    from sg d have fst: "\<not> isWhiteSpace (hd (sg @ d # rest))"
      by (auto simp: digit_not_space sign_not_space)
    have t: "dropWhile isWhiteSpace s = sg @ d # rest"
      unfolding s using w fst by (cases "sg @ d # rest") (auto simp: dropWhile_append)
    from sg show False
    proof (elim disjE)
      assume "sg = []"
      with t d n digit_not_sign[OF d] show False by (simp add: parseInt10_def Let_def)
    next
      assume "sg = ''+''"
      with t d n show False by (simp add: parseInt10_def Let_def)
    next
      assume "sg = ''-''"
      with t d n show False by (simp add: parseInt10_def Let_def)
    qed
  qed
next
  assume nn: "\<not> numberPrefix s"
  show "parseInt10 s = None"
  proof (rule ccontr)
    assume some: "parseInt10 s \<noteq> None"
    define t where "t = dropWhile isWhiteSpace s"
    define u where "u = (if t \<noteq> [] \<and> (hd t = CHR ''-'' \<or> hd t = CHR ''+'') then tl t else t)"
    from some have z: "takeWhile isDigit u \<noteq> []"
      by (auto simp: parseInt10_def Let_def t_def u_def split: if_splits)
    then obtain d rest where u: "u = d # rest" and d: "isDigit d"
      by (cases u) (auto split: if_splits)
    have s: "s = takeWhile isWhiteSpace s @ t" by (simp add: t_def)
    have w: "list_all isWhiteSpace (takeWhile isWhiteSpace s)"
      by (auto simp: list_all_iff dest: set_takeWhileD)
    have "\<exists>sg. t = sg @ d # rest \<and> (sg = [] \<or> sg = ''+'' \<or> sg = ''-'')"
    proof (cases "t \<noteq> [] \<and> (hd t = CHR ''-'' \<or> hd t = CHR ''+'')")
      case True
      then have "t = hd t # u" by (simp add: u_def)
      with True u show ?thesis by (metis append_Cons append_Nil)
    next
      case False
      then have "t = u" unfolding u_def by auto
      with u show ?thesis by simp
    qed
    then obtain sg where "t = sg @ d # rest" "sg = [] \<or> sg = ''+'' \<or> sg = ''-''" by blast
    with s w d have "numberPrefix s" unfolding numberPrefix_def by metis
    with nn show False by contradiction
  qed
qed

lemma indexOf_negative: "indexOf xs x < 0 \<longleftrightarrow> x \<notin> set xs"
  by (induction xs) (auto simp: Let_def)

lemma chase_label_to_coords:
  "\<forall>c \<in> set chaseCells.
     (case Chase_algebraic2coords c of
        Inl e \<Rightarrow> False
      | Inr p \<Rightarrow> Chase_coords2algebraic (fst p) (snd p) = c)"
  by code_simp

lemma chase_coords_to_label:
  "\<forall>x \<in> set [0, 1, 2, 3, 4, 5, 6, 7, 8 :: int]. \<forall>y \<in> set [0, 1, 2, 3, 4, 5, 6, 7, 8 :: int].
     Chase_algebraic2coords (Chase_coords2algebraic x y) = Inr (x, y)"
  by code_simp

text \<open>
  C4. For every label \<open>c\<close> of the 9x9 Chase board, \<open>algebraic2coords\<close> returns a pair whose
  image under \<open>coords2algebraic\<close> is \<open>c\<close> again; and for every pair \<open>(x, y)\<close> with
  \<open>0 \<le> x \<le> 8\<close> and \<open>0 \<le> y \<le> 8\<close>, \<open>algebraic2coords\<close> of the label that
  \<open>coords2algebraic\<close> gives returns \<open>(x, y)\<close>.
\<close>

theorem chase_coords_roundtrip:
  "(c \<in> set chaseCells \<longrightarrow>
      (\<exists>x y. Chase_algebraic2coords c = Inr (x, y) \<and> Chase_coords2algebraic x y = c))
   \<and> (0 \<le> x \<and> x \<le> 8 \<and> 0 \<le> y \<and> y \<le> 8 \<longrightarrow>
      Chase_algebraic2coords (Chase_coords2algebraic x y) = Inr (x, y))"
proof (intro conjI impI)
  assume "c \<in> set chaseCells"
  with chase_label_to_coords
  have "case Chase_algebraic2coords c of Inl e \<Rightarrow> False
        | Inr p \<Rightarrow> Chase_coords2algebraic (fst p) (snd p) = c"
    by blast
  then show "\<exists>x y. Chase_algebraic2coords c = Inr (x, y) \<and> Chase_coords2algebraic x y = c"
    by (cases "Chase_algebraic2coords c") auto
next
  assume b: "0 \<le> x \<and> x \<le> 8 \<and> 0 \<le> y \<and> y \<le> 8"
  then have "x \<in> set [0, 1, 2, 3, 4, 5, 6, 7, 8]" "y \<in> set [0, 1, 2, 3, 4, 5, 6, 7, 8]"
    by auto
  with chase_coords_to_label
  show "Chase_algebraic2coords (Chase_coords2algebraic x y) = Inr (x, y)"
    by blast
qed

theorem chase_coords_roundtrip_witness:
  "''e5'' \<in> set chaseCells
   \<and> (\<exists>x y. Chase_algebraic2coords ''e5'' = Inr (x, y) \<and> Chase_coords2algebraic x y = ''e5'')
   \<and> (0::int) \<le> 3 \<and> (3::int) \<le> 8 \<and> (0::int) \<le> 7 \<and> (7::int) \<le> 8
   \<and> Chase_algebraic2coords (Chase_coords2algebraic 3 7) = Inr (3, 7)"
proof -
  have m: "''e5'' \<in> set chaseCells" by (simp add: chaseCells_def)
  from chase_coords_roundtrip [of "''e5''" 3 7] m show ?thesis by simp
qed

lemma parseInt10_digits:
  assumes "ds \<noteq> []" "list_all isDigit ds"
  shows "parseInt10 ds = Some (int (digitsValue ds))"
proof -
  from assms obtain d rest where ds: "ds = d # rest" and d: "isDigit d"
    by (cases ds) auto
  from d have "\<not> isWhiteSpace d" "d \<noteq> CHR ''-''" "d \<noteq> CHR ''+''"
    using digit_not_space digit_not_sign by auto
  moreover from assms(2) have "takeWhile isDigit ds = ds"
    by (simp add: list_all_iff)
  ultimately show ?thesis using ds by (simp add: parseInt10_def Let_def)
qed

text \<open>
  C5, as the claim states it, fails: the label \<open>z99\<close> resolves far outside the 9x9
  board, and \<open>algebraic2coords\<close> returns the pair \<open>(98, -17)\<close> for it.
\<close>

theorem chase_algebraic2coords_no_bounds_counterexample:
  "Chase_algebraic2coords ''z99'' = Inr (98, -17)"
  by code_simp

text \<open>
  C5, amended. \<open>algebraic2coords\<close> raises when the label is empty, when its first code
  unit is not one of the 26 lower-case letters, and when the rest does not begin (after
  white space and at most one sign) with a decimal digit. For a lower-case letter
  followed by one to fifteen decimal digits (a number that a double holds exactly) it
  returns the pair of the number less one and of eight less the position of the letter,
  inside the board or not: no bound is checked.
\<close>

theorem chase_algebraic2coords_raises:
  "(cell = [] \<or> hd cell \<notin> set columnLabels \<or> \<not> numberPrefix (tl cell) \<longrightarrow>
      isl (Chase_algebraic2coords cell))
   \<and> (c \<in> set columnLabels \<and> ds \<noteq> [] \<and> length ds \<le> 15 \<and> list_all isDigit ds \<longrightarrow>
      Chase_algebraic2coords (c # ds)
        = Inr (int (digitsValue ds) - 1, 9 - indexOf columnLabels c - 1))"
proof (intro conjI impI)
  assume "cell = [] \<or> hd cell \<notin> set columnLabels \<or> \<not> numberPrefix (tl cell)"
  then show "isl (Chase_algebraic2coords cell)"
    by (cases cell)
       (auto simp: Chase_algebraic2coords_def Let_def indexOf_negative
             parseInt10_None_iff [symmetric] drop_Suc split: option.splits)
next
  assume a: "c \<in> set columnLabels \<and> ds \<noteq> [] \<and> length ds \<le> 15 \<and> list_all isDigit ds"
  then have "\<not> indexOf columnLabels c < 0" by (simp add: indexOf_negative)
  with a show "Chase_algebraic2coords (c # ds)
        = Inr (int (digitsValue ds) - 1, 9 - indexOf columnLabels c - 1)"
    by (simp add: Chase_algebraic2coords_def Let_def parseInt10_digits)
qed

theorem chase_algebraic2coords_raises_witness:
  "hd ''5a'' \<notin> set columnLabels \<and> isl (Chase_algebraic2coords ''5a'')
   \<and> \<not> numberPrefix (tl ''b-'') \<and> isl (Chase_algebraic2coords ''b-'')
   \<and> CHR ''z'' \<in> set columnLabels \<and> ''99'' \<noteq> [] \<and> length ''99'' \<le> 15
   \<and> list_all isDigit ''99''
   \<and> Chase_algebraic2coords ''z99'' = Inr (98, -17)"
proof -
  have a: "hd ''5a'' \<notin> set columnLabels" by (simp add: columnLabels_def)
  have b: "\<not> numberPrefix (tl ''b-'')"
    unfolding parseInt10_None_iff [symmetric] by code_simp
  have c: "CHR ''z'' \<in> set columnLabels" by (simp add: columnLabels_def)
  have d: "list_all isDigit ''99''" by code_simp
  have v: "int (digitsValue ''99'') - 1 = 98" "9 - indexOf columnLabels CHR ''z'' - 1 = -17"
    by code_simp+
  from chase_algebraic2coords_raises [of "''5a''" "CHR ''z''" "''99''"]
       chase_algebraic2coords_raises [of "''b-''" "CHR ''z''" "''99''"]
       a b c d v
  show ?thesis by simp
qed

section \<open>Properties of Cephalopod\<close>

lemma count_distinct_keys:
  "distinct (map fst xs) \<Longrightarrow>
   length (filter (\<lambda>e. P (snd e)) xs) = card {k. \<exists>v. map_of xs k = Some v \<and> P v}"
proof (induction xs)
  case Nil
  then show ?case by simp
next
  case (Cons a xs)
  obtain k v where a: "a = (k, v)" by (cases a)
  from Cons.prems a have nk: "k \<notin> fst ` set xs" and d: "distinct (map fst xs)" by auto
  let ?S = "{k'. \<exists>v'. map_of xs k' = Some v' \<and> P v'}"
  have fin: "finite ?S"
    by (rule finite_subset[of _ "fst ` set xs"]) (auto dest: map_of_SomeD intro: rev_image_eqI)
  have kS: "k \<notin> ?S" using nk by (auto dest: map_of_SomeD intro: rev_image_eqI)
  have split: "{k'. \<exists>v'. map_of (a # xs) k' = Some v' \<and> P v'} = (if P v then insert k ?S else ?S)"
    using kS by (auto simp: a)
  have len: "length (filter (\<lambda>e. P (snd e)) (a # xs))
             = (if P v then Suc (card ?S) else card ?S)"
    using Cons.IH[OF d] by (simp add: a)
  show ?case unfolding len split using fin kS by simp
qed

lemma Ceph_score_card:
  "Ceph_getPlayerScore s p = int (card {c. map_option fst (DAList.lookup (board s) c) = Some p})"
proof -
  have "length (filter (\<lambda>v. fst v = p) (mapValues (board s)))
        = length (filter (\<lambda>e. fst (snd e) = p) (DAList.impl_of (board s)))"
    by (simp add: mapValues_def filter_map comp_def)
  also have "\<dots> = card {k. \<exists>v. map_of (DAList.impl_of (board s)) k = Some v \<and> fst v = p}"
    by (rule count_distinct_keys) simp
  also have "{k. \<exists>v. map_of (DAList.impl_of (board s)) k = Some v \<and> fst v = p}
           = {c. map_option fst (DAList.lookup (board s) c) = Some p}"
    by (auto simp: DAList.lookup.rep_eq)
  finally show ?thesis by (simp add: Ceph_getPlayerScore_def)
qed

lemma Ceph_checkEOG_filled:
  assumes "mapSize (board s) = length (g_listCells G (Ceph_graph s))"
  shows "Ceph_checkEOG G s =
     (if Ceph_getPlayerScore s 1 > Ceph_getPlayerScore s 2
      then Return () (s\<lparr>gameover := True, winner := [1],
                        results := results s @ [REog, RWinners [1]]\<rparr>)
      else if Ceph_getPlayerScore s 1 < Ceph_getPlayerScore s 2
      then Return () (s\<lparr>gameover := True, winner := [2],
                        results := results s @ [REog, RWinners [2]]\<rparr>)
      else Throw (Error ''Draws shouldn't be possible.'') (s\<lparr>gameover := True\<rparr>))"
  using assms by (simp add: Ceph_checkEOG_def Let_def Ceph_getPlayerScore_def)

lemma twoCells_filled:
  "mapSize (board (cephWith (boardOf kvs))) = length (g_listCells twoCells (Ceph_graph (cephWith (boardOf kvs))))
   \<longleftrightarrow> mapSize (boardOf kvs) = Suc (Suc 0)"
  by (simp add: cephWith_def twoCells_def)

text \<open>
  C7. When the board holds as many dice as the graph has cells, \<open>checkEOG\<close> sets the
  game-over flag; it makes player 1 the winner when player 1's score is strictly the
  greater and player 2 when player 2's is, recording the end of the game and the
  winner; when the two scores are equal it raises \<open>Error("Draws shouldn't be
  possible.")\<close> and names no winner.
\<close>

theorem Ceph_checkEOG_filled_board:
  assumes "mapSize (board s) = length (g_listCells G (Ceph_graph s))"
  shows "gameover (stateOf (Ceph_checkEOG G s))
     \<and> (Ceph_getPlayerScore s 1 > Ceph_getPlayerScore s 2 \<longrightarrow>
          Ceph_checkEOG G s =
            Return () (s\<lparr>gameover := True, winner := [1],
                         results := results s @ [REog, RWinners [1]]\<rparr>))
     \<and> (Ceph_getPlayerScore s 1 < Ceph_getPlayerScore s 2 \<longrightarrow>
          Ceph_checkEOG G s =
            Return () (s\<lparr>gameover := True, winner := [2],
                         results := results s @ [REog, RWinners [2]]\<rparr>))
     \<and> (Ceph_getPlayerScore s 1 = Ceph_getPlayerScore s 2 \<longrightarrow>
          Ceph_checkEOG G s =
            Throw (Error ''Draws shouldn't be possible.'') (s\<lparr>gameover := True\<rparr>))"
  unfolding Ceph_checkEOG_filled [OF assms] by simp

theorem Ceph_checkEOG_filled_board_witness:
  "Ceph_checkEOG twoCells (cephWith (boardOf [(''a1'', (2, 3)), (''b1'', (2, 1))]))
     = Return () ((cephWith (boardOf [(''a1'', (2, 3)), (''b1'', (2, 1))]))
                    \<lparr>gameover := True, winner := [2], results := [REog, RWinners [2]]\<rparr>)
   \<and> Ceph_checkEOG twoCells (cephWith (boardOf [(''a1'', (1, 3)), (''b1'', (2, 1))]))
     = Throw (Error ''Draws shouldn't be possible.'')
         ((cephWith (boardOf [(''a1'', (1, 3)), (''b1'', (2, 1))]))\<lparr>gameover := True\<rparr>)"
proof -
  let ?w = "cephWith (boardOf [(''a1'', (2, 3)), (''b1'', (2, 1))])"
  let ?t = "cephWith (boardOf [(''a1'', (1, 3)), (''b1'', (2, 1))])"
  have fw: "mapSize (board ?w) = length (g_listCells twoCells (Ceph_graph ?w))"
    unfolding twoCells_filled by code_simp
  have ft: "mapSize (board ?t) = length (g_listCells twoCells (Ceph_graph ?t))"
    unfolding twoCells_filled by code_simp
  have sw: "Ceph_getPlayerScore ?w 1 = 0" "Ceph_getPlayerScore ?w 2 = 2"
    by code_simp+
  have st: "Ceph_getPlayerScore ?t 1 = 1" "Ceph_getPlayerScore ?t 2 = 1"
    by code_simp+
  have rw: "results ?w = []" by (simp add: cephWith_def)
  from Ceph_checkEOG_filled_board [OF fw] Ceph_checkEOG_filled_board [OF ft] sw st rw
  show ?thesis by simp
qed

text \<open>
  C9. \<open>getPlayerScore(p)\<close> is the number of cells whose die belongs to \<open>p\<close>, whatever the
  dice show; and on a filled board \<open>checkEOG\<close> decides by comparing these two numbers:
  the larger number wins, equal numbers raise.
\<close>

theorem Ceph_score_is_cell_count:
  "Ceph_getPlayerScore s p = int (card {c. map_option fst (DAList.lookup (board s) c) = Some p})
   \<and> (mapSize (board s) = length (g_listCells G (Ceph_graph s)) \<longrightarrow>
        (let n1 = card {c. map_option fst (DAList.lookup (board s) c) = Some 1};
             n2 = card {c. map_option fst (DAList.lookup (board s) c) = Some 2}
         in (n1 > n2 \<longrightarrow> \<not> raised (Ceph_checkEOG G s)
                          \<and> winner (stateOf (Ceph_checkEOG G s)) = [1])
          \<and> (n1 < n2 \<longrightarrow> \<not> raised (Ceph_checkEOG G s)
                          \<and> winner (stateOf (Ceph_checkEOG G s)) = [2])
          \<and> (n1 = n2 \<longrightarrow> raised (Ceph_checkEOG G s))))"
proof (intro conjI impI)
  show "Ceph_getPlayerScore s p
        = int (card {c. map_option fst (DAList.lookup (board s) c) = Some p})"
    by (rule Ceph_score_card)
next
  assume f: "mapSize (board s) = length (g_listCells G (Ceph_graph s))"
  show "let n1 = card {c. map_option fst (DAList.lookup (board s) c) = Some 1};
            n2 = card {c. map_option fst (DAList.lookup (board s) c) = Some 2}
        in (n1 > n2 \<longrightarrow> \<not> raised (Ceph_checkEOG G s)
                         \<and> winner (stateOf (Ceph_checkEOG G s)) = [1])
         \<and> (n1 < n2 \<longrightarrow> \<not> raised (Ceph_checkEOG G s)
                         \<and> winner (stateOf (Ceph_checkEOG G s)) = [2])
         \<and> (n1 = n2 \<longrightarrow> raised (Ceph_checkEOG G s))"
    unfolding Ceph_checkEOG_filled [OF f] Let_def
    by (simp add: Ceph_score_card [of s 1] Ceph_score_card [of s 2])
qed

theorem Ceph_score_is_cell_count_witness:
  "Ceph_getPlayerScore (cephWith (boardOf [(''a1'', (1, 6)), (''b1'', (1, 1))])) 1 = 2
   \<and> card {c. map_option fst
               (DAList.lookup (board (cephWith (boardOf [(''a1'', (1, 6)), (''b1'', (1, 1))]))) c)
               = Some 1} = 2
   \<and> \<not> raised (Ceph_checkEOG twoCells (cephWith (boardOf [(''a1'', (1, 6)), (''b1'', (1, 1))])))
   \<and> winner (stateOf (Ceph_checkEOG twoCells
                (cephWith (boardOf [(''a1'', (1, 6)), (''b1'', (1, 1))])))) = [1]"
proof -
  let ?w = "cephWith (boardOf [(''a1'', (1, 6)), (''b1'', (1, 1))])"
  have f: "mapSize (board ?w) = length (g_listCells twoCells (Ceph_graph ?w))"
    unfolding twoCells_filled by code_simp
  have s1: "Ceph_getPlayerScore ?w 1 = 2" and s2: "Ceph_getPlayerScore ?w 2 = 0"
    by code_simp+
  from Ceph_score_is_cell_count [of ?w 1 twoCells] Ceph_score_is_cell_count [of ?w 2 twoCells]
    f s1 s2
  show ?thesis by (simp add: Let_def)
qed

section \<open>Methods that leave the object as it was\<close>

lemma bind_keeps:
  "stateOf (m s) = s \<Longrightarrow> (\<And>x. stateOf (f x s) = s) \<Longrightarrow> stateOf (bind m f s) = s"
  by (cases "m s") (auto simp: bind_def)

lemma tryCatch_keeps:
  "stateOf (m s) = s \<Longrightarrow> stateOf (h s) = s \<Longrightarrow> stateOf (tryCatch m h s) = s"
  by (cases "m s") (auto simp: tryCatch_def)

lemma basic_keeps [simp]:
  "stateOf (ret x s) = s" "stateOf (throw e s) = s" "stateOf (gets f s) = s"
  "stateOf (lift r s) = s"
  by (auto simp: ret_def throw_def gets_def lift_def split: sum.splits)

lemma mapM_keeps:
  "(\<And>x. stateOf (f x s) = s) \<Longrightarrow> stateOf (mapM f xs s) = s"
  by (induction xs) (auto intro!: bind_keeps)

lemma foldM_keeps:
  "(\<And>a x. stateOf (f a x s) = s) \<Longrightarrow> stateOf (foldM f a xs s) = s"
  by (induction xs arbitrary: a) (auto intro!: bind_keeps)

subsection \<open>Stigmergy\<close>

lemma Stig_buildGraph_keeps: "Stig_built s \<Longrightarrow> stateOf (Stig_buildGraph s) = s"
  by (simp add: Stig_built_def Stig_buildGraph_def Let_def)

lemma Stig_getGraph_keeps: "Stig_built s \<Longrightarrow> stateOf (Stig_getGraph s) = s"
  by (simp add: Stig_getGraph_def Stig_built_def)

lemma Stig_listCells_keeps: "Stig_built s \<Longrightarrow> stateOf (Stig_listCells G s) = s"
  unfolding Stig_listCells_def
  by (intro tryCatch_keeps bind_keeps Stig_getGraph_keeps Stig_buildGraph_keeps basic_keeps)

lemma Stig_rayCells_keeps: "Stig_built s \<Longrightarrow> stateOf (Stig_rayCells G cell dir s) = s"
  unfolding Stig_rayCells_def
  by (intro bind_keeps mapM_keeps Stig_getGraph_keeps basic_keeps)

lemma Stig_getLosCount_keeps: "Stig_built s \<Longrightarrow> stateOf (Stig_getLosCount G cell p s) = s"
  unfolding Stig_getLosCount_def
  by (intro foldM_keeps bind_keeps Stig_rayCells_keeps basic_keeps)

lemma Stig_losTarget_keeps: "Stig_built s \<Longrightarrow> stateOf (Stig_losTarget G cell s) = s"
  unfolding Stig_losTarget_def
  by (intro bind_keeps Stig_getGraph_keeps basic_keeps)

lemma Stig_movesStep_keeps: "Stig_built s \<Longrightarrow> stateOf (Stig_movesStep G p q acc cell s) = s"
  unfolding Stig_movesStep_def
  by (intro bind_keeps Stig_losTarget_keeps Stig_getLosCount_keeps basic_keeps)

lemma Stig_moves_keeps: "Stig_built s \<Longrightarrow> stateOf (Stig_moves G p s) = s"
  unfolding Stig_moves_def Let_def
  by (auto intro!: bind_keeps foldM_keeps Stig_listCells_keeps Stig_movesStep_keeps)

lemma Stig_validateCell_keeps: "Stig_built s \<Longrightarrow> stateOf (Stig_validateCell G m s) = s"
  unfolding Stig_validateCell_def
  by (auto intro!: bind_keeps Stig_losTarget_keeps Stig_getLosCount_keeps)

lemma Stig_validateMove_keeps: "Stig_built s \<Longrightarrow> stateOf (Stig_validateMove G m s) = s"
  unfolding Stig_validateMove_def Let_def
  by (auto intro!: bind_keeps tryCatch_keeps Stig_moves_keeps Stig_getGraph_keeps
                   Stig_validateCell_keeps)

subsection \<open>Amazons\<close>

lemma Amazons_rayCells_keeps: "stateOf (Amazons_rayCells env a b c d s) = s"
  unfolding Amazons_rayCells_def by (intro bind_keeps basic_keeps)

lemma Amazons_validateBlock_keeps: "stateOf (Amazons_validateBlock env f t b s) = s"
  unfolding Amazons_validateBlock_def
  by (auto intro!: bind_keeps Amazons_rayCells_keeps split: option.splits)

lemma Amazons_validateTo_keeps: "stateOf (Amazons_validateTo env f t b s) = s"
  unfolding Amazons_validateTo_def
  by (auto intro!: bind_keeps Amazons_rayCells_keeps Amazons_validateBlock_keeps
           split: option.splits)

lemma Amazons_validateMove_keeps: "stateOf (Amazons_validateMove env m s) = s"
  unfolding Amazons_validateMove_def Let_def
  by (auto intro!: bind_keeps Amazons_validateTo_keeps split: option.splits)

section \<open>The graph of a Stigmergy object stays built\<close>

text \<open>
  The constructor returns an object whose graph is built, and \<open>move\<close> and \<open>load\<close>
  leave it built, whether they return or raise.
\<close>

lemma bind_inv:
  assumes "I s" "\<And>s. I s \<Longrightarrow> I (stateOf (m s))" "\<And>x s. I s \<Longrightarrow> I (stateOf (f x s))"
  shows "I (stateOf (bind m f s))"
proof (cases "m s")
  case (Return x s')
  with assms(2)[OF assms(1)] have "I s'" by simp
  with assms(3) Return show ?thesis by (simp add: bind_def)
next
  case (Throw e s')
  with assms(2)[OF assms(1)] show ?thesis by (simp add: bind_def)
qed

lemma foldM_inv:
  assumes "\<And>a x s. I s \<Longrightarrow> I (stateOf (f a x s))"
  shows "I s \<Longrightarrow> I (stateOf (foldM f a xs s))"
proof (induction xs arbitrary: a s)
  case Nil
  then show ?case by (simp add: ret_def)
next
  case (Cons x xs)
  show ?case
    unfolding foldM.simps
    by (rule bind_inv[where I=I, OF Cons.prems]) (auto intro: assms Cons.IH)
qed

lemma Stig_cellOwner_keeps: "Stig_built s \<Longrightarrow> stateOf (Stig_cellOwner G cell s) = s"
  unfolding Stig_cellOwner_def
  by (auto intro!: bind_keeps Stig_losTarget_keeps Stig_getLosCount_keeps)

lemma Stig_updateScores_built: "Stig_built s \<Longrightarrow> Stig_built (stateOf (Stig_updateScores G s))"
  unfolding Stig_updateScores_def
  apply (rule bind_inv[where I=Stig_built], assumption)
   apply (simp add: modify_def Stig_built_def)
  apply (rule bind_inv[where I=Stig_built], assumption)
   apply (simp add: Stig_listCells_keeps)
  apply (rule foldM_inv[where I=Stig_built])
   apply (rule bind_inv[where I=Stig_built], assumption)
    apply (simp add: Stig_cellOwner_keeps)
   apply (simp add: modify_def Stig_built_def ret_def split: option.splits)
  apply assumption
  done

lemma Stig_checkMove_keeps: "Stig_built s \<Longrightarrow> stateOf (Stig_checkMove G m p s) = s"
  unfolding Stig_checkMove_def
  by (auto intro!: bind_keeps Stig_validateMove_keeps Stig_moves_keeps)

lemma Stig_applyMove_built: "Stig_built s \<Longrightarrow> Stig_built (stateOf (Stig_applyMove m s))"
  by (simp add: Stig_applyMove_def Stig_built_def Let_def)

lemma Stig_checkEOG_built: "Stig_built s \<Longrightarrow> Stig_built (stateOf (Stig_checkEOG s))"
  by (simp add: Stig_checkEOG_def Stig_built_def Let_def)

lemma Stig_saveState_built: "Stig_built s \<Longrightarrow> Stig_built (stateOf (Stig_saveState s))"
  by (simp add: Stig_saveState_def Stig_built_def)

lemma Stig_pipeline_built:
  "Stig_built s \<Longrightarrow>
   Stig_built (stateOf (bind (Stig_applyMove m) (\<lambda>_. bind (Stig_updateScores G)
                 (\<lambda>_. bind Stig_checkEOG (\<lambda>_. Stig_saveState))) s))"
  apply (rule bind_inv[where I=Stig_built], assumption)
   apply (simp add: Stig_applyMove_built)
  apply (rule bind_inv[where I=Stig_built], assumption)
   apply (simp add: Stig_updateScores_built)
  apply (rule bind_inv[where I=Stig_built], assumption)
   apply (simp add: Stig_checkEOG_built)
  apply (simp add: Stig_saveState_built)
  done

lemma Stig_move_built: "Stig_built s \<Longrightarrow> Stig_built (stateOf (Stig_move G m p t s))"
proof -
  assume b: "Stig_built s"
  have "Stig_built (stateOf (bind (if \<not> t then Stig_checkMove G (normalizeInput m) p else ret ())
          (\<lambda>_. bind (Stig_applyMove (normalizeInput m)) (\<lambda>_. bind (Stig_updateScores G)
                 (\<lambda>_. bind Stig_checkEOG (\<lambda>_. Stig_saveState)))) s))"
    apply (rule bind_inv[where I=Stig_built, OF b])
     apply (simp add: Stig_checkMove_keeps ret_def)
    apply (erule Stig_pipeline_built)
    done
  with b show ?thesis by (simp add: Stig_move_def Let_def)
qed

lemma Stig_load_built: "Stig_built s \<Longrightarrow> Stig_built (stateOf (Stig_load i s))"
  by (simp add: Stig_load_def Stig_built_def Let_def)

lemma Stig_new_built: "Stig_new state vs = Return x s \<Longrightarrow> Stig_built s"
  by (cases state)
     (auto simp: Stig_new_def bind_def modify_def throw_def Stig_getBoardSize_def
        Stig_fields_def Stig_load_def Stig_buildGraph_def ret_def Let_def Stig_built_def
        split: if_splits option.splits outcome.splits)

section \<open>Facts about the concrete instances, and inputs that are no labels\<close>


lemma Stig_fresh_fields:
  "Stig_fresh =
     \<lparr>numplayers = 2, currplayer = 1, board = DAList.empty, lastmove = None,
      gameover = False, winner = [], variants = [],
      stack = [\<lparr>st_version = ''20240524'', st_results = [], st_currplayer = 1,
                st_board = DAList.empty, st_lastmove = None, st_scores = (0, 0),
                st_buttontaker = None, st_komi = None\<rparr>],
      results = [], Stig_graph = Some (HexTriGraph 8 15), scores = (0, 0),
      buttontaker = None, komi = None, boardSize = 8\<rparr>"
  by (simp add: Stig_fresh_def Stig_new_def bind_def modify_def Stig_fields_def
        Stig_getBoardSize_def Stig_load_def Stig_buildGraph_def ret_def Let_def)

lemma Stig_fresh_built: "Stig_built Stig_fresh"
  by (simp add: Stig_fresh_fields Stig_built_def)

lemma Stig_afterKomi_built: "Stig_built Stig_afterKomi"
  unfolding Stig_afterKomi_def by (rule Stig_move_built [OF Stig_fresh_built])

lemma Stig_afterPass_built: "Stig_built Stig_afterPass"
  unfolding Stig_afterPass_def by (rule Stig_move_built [OF Stig_afterKomi_built])


lemma Stig_afterPass_facts:
  "\<not> gameover Stig_afterPass" "length (stack Stig_afterPass) = 3" "boardSize Stig_afterPass = 8"
  by code_simp+

lemma Stig_validateMove_malformed:
  assumes b: "Stig_built s" and p: "normalizeInput m \<noteq> ''pass''"
    and bad: "isl (h_algebraic2coords G (HexTriGraph (boardSize s) ((boardSize s * 2) - 1)) (normalizeInput m))"
  shows "\<not> raised (Stig_validateMove G m s)"
proof -
  from b have g: "Stig_getGraph s = Return (HexTriGraph (boardSize s) ((boardSize s * 2) - 1)) s"
    by (simp add: Stig_getGraph_def Stig_built_def)
  from bad obtain e where e: "h_algebraic2coords G (HexTriGraph (boardSize s) ((boardSize s * 2) - 1)) (normalizeInput m) = Inl e"
    by (cases "h_algebraic2coords G (HexTriGraph (boardSize s) ((boardSize s * 2) - 1)) (normalizeInput m)") auto
  show ?thesis using p g e
    by (simp add: Stig_validateMove_def Let_def tryCatch_def bind_def ret_def lift_def)
qed

lemma Amazons_validateMove_malformed:
  assumes "\<not> Amazons_cellsOk env (take 3 (splitOn (\<lambda>c. c = CHR ''-'' \<or> c = CHR ''/'') m))"
  shows "\<not> raised (Amazons_validateMove env m a)"
  using assms by (simp add: Amazons_validateMove_def Let_def ret_def)

section \<open>Rejected moves\<close>







text \<open>
  C10. On a Stigmergy object whose game-over flag is not set, \<open>move\<close> with the empty
  string returns without raising and leaves every field, the stack included, as it was,
  whatever \<open>partial\<close> and \<open>trusted\<close> are.
\<close>

theorem Stig_move_empty_string:
  "\<not> gameover s \<Longrightarrow> Stig_move G [] partial trusted s = Return () s"
  by (simp add: Stig_move_def)

theorem Stig_move_empty_string_witness:
  "\<not> gameover Stig_afterPass
   \<and> Stig_move twoHex [] False False Stig_afterPass = Return () Stig_afterPass"
  using Stig_move_empty_string [of Stig_afterPass twoHex False False] Stig_afterPass_facts(1)
  by simp

section \<open>Validation changes nothing\<close>

text \<open>
  \<open>validateMove\<close> leaves the object as it was, for every input and whether it
  returns or raises: in Stigmergy on every object whose graph is built (the constructor
  builds it and \<open>move\<close> and \<open>load\<close> keep it built), in Amazons on every object. An
  input that is no label makes neither raise: Stigmergy (for an input other than a
  pass) and Amazons return a verdict.
\<close>

theorem validateMove_leaves_object_unchanged:
  "(Stig_built s \<longrightarrow> stateOf (Stig_validateMove G m s) = s)
   \<and> (Stig_built s \<and> normalizeInput m \<noteq> ''pass''
        \<and> isl (h_algebraic2coords G (HexTriGraph (boardSize s) ((boardSize s * 2) - 1))
                 (normalizeInput m)) \<longrightarrow>
        \<not> raised (Stig_validateMove G m s))
   \<and> stateOf (Amazons_validateMove env m a) = a
   \<and> (\<not> Amazons_cellsOk env (take 3 (splitOn (\<lambda>c. c = CHR ''-'' \<or> c = CHR ''/'') m)) \<longrightarrow>
        \<not> raised (Amazons_validateMove env m a))"
  by (intro conjI impI)
     (simp_all add: Stig_validateMove_keeps Stig_validateMove_malformed
        Amazons_validateMove_keeps Amazons_validateMove_malformed)

theorem validateMove_leaves_object_unchanged_witness:
  "Stig_built Stig_afterPass
   \<and> stateOf (Stig_validateMove twoHex ''?!'' Stig_afterPass) = Stig_afterPass
   \<and> normalizeInput ''?!'' \<noteq> ''pass''
   \<and> isl (h_algebraic2coords twoHex
            (HexTriGraph (boardSize Stig_afterPass) ((boardSize Stig_afterPass * 2) - 1))
            (normalizeInput ''?!''))
   \<and> \<not> raised (Stig_validateMove twoHex ''?!'' Stig_afterPass)
   \<and> stateOf (Amazons_validateMove gridEnv ''?!'' (amazonsWith [])) = amazonsWith []
   \<and> \<not> Amazons_cellsOk gridEnv (take 3 (splitOn (\<lambda>c. c = CHR ''-'' \<or> c = CHR ''/'') ''?!''))
   \<and> \<not> raised (Amazons_validateMove gridEnv ''?!'' (amazonsWith []))"
proof -
  have n: "normalizeInput ''?!'' = ''?!''" by code_simp
  have i: "isl (h_algebraic2coords twoHex (HexTriGraph 8 15) ''?!'')"
    by (simp add: twoHex_def)
  have c: "\<not> Amazons_cellsOk gridEnv (take 3 (splitOn (\<lambda>c. c = CHR ''-'' \<or> c = CHR ''/'') ''?!''))"
    by code_simp
  from validateMove_leaves_object_unchanged
         [of Stig_afterPass twoHex "''?!''" gridEnv "amazonsWith []"]
       Stig_afterPass_built Stig_afterPass_facts n i c
  show ?thesis by simp
qed

subsection \<open>An arrow shot at the square the amazon moved to\<close>

text \<open>
  The second half of \<open>AmazonsGame.validateMove\<close> takes the bearing of the block from
  the destination and hands it to \<open>ray\<close>; its comment says that the bearing cannot be
  \<open>undefined\<close>, the destination having been found empty. The test before it lets a
  block pass that is the destination itself, which is empty: whenever the grid has no
  bearing from a point to itself and no ray without a direction, the call raises what
  \<open>ray\<close> raises.
\<close>

lemma Amazons_validateBlock_at_destination:
  assumes "Amazons_algebraic2coords env to = Inr p"
    and "\<not> mapHas (board s) to"
    and "r_bearing env (fst p) (snd p) (fst p) (snd p) = None"
    and "r_ray env (10, 10) (fst p) (snd p) None = Inl e"
  shows "Amazons_validateBlock env from to to s = Throw e s"
  using assms
  by (simp add: Amazons_validateBlock_def Amazons_rayCells_def bind_def lift_def gets_def
        ret_def)

text \<open>
  C2 fails in Amazons. On the object of a new game, the move \<open>d1-d2\<close> of the amazon on
  \<open>d1\<close> is answered by the verdict that a block is still to be named, and \<open>d1-d2/d2\<close>,
  the same move with its arrow shot at the destination, returns no verdict:
  \<open>validateMove\<close> raises. The object is the same afterwards.
\<close>

theorem Amazons_validateMove_raises:
  "Amazons_validateMove gridEnv ''d1-d2'' Amazons_start
     = Return (verdict True ''apgames:validation.amazons.POTENTIAL_BLOCK'' (Some (-1)) (Some True))
         Amazons_start
   \<and> Amazons_validateMove gridEnv ''d1-d2/d2'' Amazons_start
     = Throw (Error ''Invalid direction'') Amazons_start"
proof -
  have "Amazons_validateMove gridEnv ''d1-d2'' Amazons_start
     = Return (verdict True ''apgames:validation.amazons.POTENTIAL_BLOCK'' (Some (-1)) (Some True))
         Amazons_start"
    by code_simp
  moreover have "Amazons_validateMove gridEnv ''d1-d2/d2'' Amazons_start
     = Throw (Error ''Invalid direction'') Amazons_start"
    by code_simp
  ultimately show ?thesis by simp
qed

section \<open>Loading a snapshot\<close>

lemma stackIndex_last: "st \<noteq> [] \<Longrightarrow> st ! stackIndex st (-1) = last st"
  by (simp add: stackIndex_def last_conv_nth nat_diff_distrib')

lemma stackIndex_first: "st \<noteq> [] \<Longrightarrow> st ! stackIndex st 0 = hd st"
  by (simp add: stackIndex_def hd_conv_nth)

text \<open>
  \<open>load\<close> of Stigmergy and of Amazons. With \<open>n\<close> the length of the stack and
  \<open>-n \<le> i < n\<close>, \<open>load(i)\<close> assigns the current-view fields from the snapshot at \<open>i\<close>, a negative \<open>i\<close> counting from the end
  (\<open>-1\<close> is the last snapshot, \<open>0\<close> the first): Stigmergy the current player, board,
  last move, results, scores, button taker and komi, and nothing else; Amazons the
  results, current player, board and last move, after which it rebuilds its graph from
  the board and raises only if the graph library does. The stack is the same afterwards.
  For every other \<open>i\<close>, \<open>load(i)\<close> raises and leaves the object as it was.
\<close>

theorem load_restores_snapshot:
  "(- int (length (stack s)) \<le> i \<and> i < int (length (stack s)) \<longrightarrow>
      (let e = stack s ! stackIndex (stack s) i
       in Stig_load i s =
            Return () (s\<lparr>currplayer := st_currplayer e, board := st_board e,
                         lastmove := st_lastmove e, results := st_results e,
                         scores := st_scores e, buttontaker := st_buttontaker e,
                         komi := st_komi e\<rparr>)))
   \<and> (\<not> (- int (length (stack s)) \<le> i \<and> i < int (length (stack s))) \<longrightarrow>
        Stig_load i s
          = Throw (Error ''Could not load the requested state from the stack.'') s)
   \<and> (- int (length (stack a)) \<le> j \<and> j < int (length (stack a)) \<longrightarrow>
      (let e = stack a ! stackIndex (stack a) j;
           t = stateOf (Amazons_load env j a)
       in currplayer t = st_currplayer e \<and> board t = st_board e
          \<and> lastmove t = st_lastmove e \<and> results t = st_results e
          \<and> stack t = stack a
          \<and> (raised (Amazons_load env j a) \<longleftrightarrow> isl (Amazons_buildGraph env (st_board e)))))
   \<and> (\<not> (- int (length (stack a)) \<le> j \<and> j < int (length (stack a))) \<longrightarrow>
        Amazons_load env j a
          = Throw (Error ''Could not load the requested state from the stack.'') a)
   \<and> (st \<noteq> [] \<longrightarrow> st ! stackIndex st (-1) = last st \<and> st ! stackIndex st 0 = hd st)"
proof (intro conjI impI)
  assume "- int (length (stack s)) \<le> i \<and> i < int (length (stack s))"
  then show "let e = stack s ! stackIndex (stack s) i
       in Stig_load i s =
            Return () (s\<lparr>currplayer := st_currplayer e, board := st_board e,
                         lastmove := st_lastmove e, results := st_results e,
                         scores := st_scores e, buttontaker := st_buttontaker e,
                         komi := st_komi e\<rparr>)"
    by (auto simp: Stig_load_def Let_def stackIndex_def)
next
  assume "\<not> (- int (length (stack s)) \<le> i \<and> i < int (length (stack s)))"
  then show "Stig_load i s
          = Throw (Error ''Could not load the requested state from the stack.'') s"
    by (auto simp: Stig_load_def Let_def)
next
  assume "- int (length (stack a)) \<le> j \<and> j < int (length (stack a))"
  then show "let e = stack a ! stackIndex (stack a) j;
           t = stateOf (Amazons_load env j a)
       in currplayer t = st_currplayer e \<and> board t = st_board e
          \<and> lastmove t = st_lastmove e \<and> results t = st_results e
          \<and> stack t = stack a
          \<and> (raised (Amazons_load env j a) \<longleftrightarrow> isl (Amazons_buildGraph env (st_board e)))"
    by (auto simp: Amazons_load_def Let_def stackIndex_def split: sum.splits)
next
  assume "\<not> (- int (length (stack a)) \<le> j \<and> j < int (length (stack a)))"
  then show "Amazons_load env j a
          = Throw (Error ''Could not load the requested state from the stack.'') a"
    by (auto simp: Amazons_load_def Let_def)
next
  assume "st \<noteq> []"
  then show "st ! stackIndex st (-1) = last st" by (rule stackIndex_last)
next
  assume "st \<noteq> []"
  then show "st ! stackIndex st 0 = hd st" by (rule stackIndex_first)
qed

lemma Stig_afterPass_first:
  "stack Stig_afterPass ! stackIndex (stack Stig_afterPass) 0
   = \<lparr>st_version = ''20240524'', st_results = [], st_currplayer = 1,
      st_board = DAList.empty, st_lastmove = None, st_scores = (0, 0),
      st_buttontaker = None, st_komi = None\<rparr>"
  by code_simp

theorem load_restores_snapshot_witness:
  "- int (length (stack Stig_afterPass)) \<le> 0 \<and> 0 < int (length (stack Stig_afterPass))
   \<and> Stig_load 0 Stig_afterPass
       = Return () (Stig_afterPass\<lparr>currplayer := 1, board := DAList.empty, lastmove := None,
                      results := [], scores := (0, 0), buttontaker := None, komi := None\<rparr>)
   \<and> \<not> (- int (length (stack Stig_afterPass)) \<le> 3 \<and> 3 < int (length (stack Stig_afterPass)))
   \<and> Stig_load 3 Stig_afterPass
       = Throw (Error ''Could not load the requested state from the stack.'') Stig_afterPass
   \<and> - int (length (stack (amazonsWith [snap 1 [(''d10'', 2)] None, snap 2 [(''d9'', 2), (''d10'', 0)] (Some ''m'')]))) \<le> -1
   \<and> currplayer (stateOf (Amazons_load gridEnv (-1)
        (amazonsWith [snap 1 [(''d10'', 2)] None, snap 2 [(''d9'', 2), (''d10'', 0)] (Some ''m'')]))) = 2
   \<and> lastmove (stateOf (Amazons_load gridEnv (-1)
        (amazonsWith [snap 1 [(''d10'', 2)] None, snap 2 [(''d9'', 2), (''d10'', 0)] (Some ''m'')]))) = Some ''m''
   \<and> \<not> (- int (length (stack (amazonsWith [] :: string list AmazonsGame))) \<le> -1
         \<and> -1 < int (length (stack (amazonsWith [] :: string list AmazonsGame))))
   \<and> Amazons_load gridEnv (-1) (amazonsWith [])
       = Throw (Error ''Could not load the requested state from the stack.'') (amazonsWith [])
   \<and> [1, 2, 3 :: nat] \<noteq> [] \<and> [1, 2, 3 :: nat] ! stackIndex [1, 2, 3 :: nat] (-1) = 3"
proof -
  let ?a = "amazonsWith [snap 1 [(''d10'', 2)] None, snap 2 [(''d9'', 2), (''d10'', 0)] (Some ''m'')]"
  have l: "length (stack Stig_afterPass) = 3" by (rule Stig_afterPass_facts)
  have la: "stack ?a ! stackIndex (stack ?a) (-1) = snap 2 [(''d9'', 2), (''d10'', 0)] (Some ''m'')"
    "length (stack ?a) = 2"
    by (simp_all add: amazonsWith_def stackIndex_def)
  have le: "length (stack (amazonsWith [] :: string list AmazonsGame)) = 0"
    by (simp add: amazonsWith_def)
  from load_restores_snapshot [of Stig_afterPass 0 ?a "-1" gridEnv "[1, 2, 3 :: nat]"]
       load_restores_snapshot [of Stig_afterPass 3 "amazonsWith []" "-1" gridEnv "[1, 2, 3 :: nat]"]
       l la le Stig_afterPass_first
  show ?thesis by (simp add: Let_def snap_def)
qed


subsection \<open>\<open>load\<close> of Cephalopod\<close>

text \<open>
  \<open>CephalopodGame.load\<close> assigns the current player, the board and the last move from
  the snapshot, with the same index rule, and leaves \<open>results\<close> as they were.
\<close>

lemma Ceph_load_fields:
  assumes "- int (length (stack s)) \<le> i" and "i < int (length (stack s))"
  shows "\<not> raised (Ceph_load i s)"
    and "currplayer (stateOf (Ceph_load i s)) = st_currplayer (stack s ! stackIndex (stack s) i)"
    and "board (stateOf (Ceph_load i s)) = st_board (stack s ! stackIndex (stack s) i)"
    and "lastmove (stateOf (Ceph_load i s)) = st_lastmove (stack s ! stackIndex (stack s) i)"
    and "stack (stateOf (Ceph_load i s)) = stack s"
  using assms
  by (auto simp: Ceph_load_def Ceph_buildGraph_def Let_def stackIndex_def)

lemma Ceph_load_results: "results (stateOf (Ceph_load i s)) = results s"
  by (simp add: Ceph_load_def Ceph_buildGraph_def Let_def)

text \<open>
  C6 fails in Cephalopod. After the first move \<open>a1\<close> of a game, \<open>load(0)\<close> returns, the
  current player, the board and the last move are those of the first snapshot, whose
  list of results is empty, and \<open>results\<close> still holds the record of the move.
\<close>

theorem Ceph_load_keeps_results:
  "\<not> raised (Ceph_load 0 Ceph_afterA1)
   \<and> stack Ceph_afterA1 ! stackIndex (stack Ceph_afterA1) 0
       = \<lparr>st_version = ''20211113'', st_results = [], st_currplayer = 1,
          st_board = DAList.empty, st_lastmove = None\<rparr>
   \<and> currplayer (stateOf (Ceph_load 0 Ceph_afterA1)) = 1
   \<and> board (stateOf (Ceph_load 0 Ceph_afterA1)) = DAList.empty
   \<and> lastmove (stateOf (Ceph_load 0 Ceph_afterA1)) = None
   \<and> results (stateOf (Ceph_load 0 Ceph_afterA1)) = [RPlace (Some ''1'') ''a1'']"
proof -
  have a: "\<not> raised (Ceph_load 0 Ceph_afterA1)" by code_simp
  have b: "stack Ceph_afterA1 ! stackIndex (stack Ceph_afterA1) 0
       = \<lparr>st_version = ''20211113'', st_results = [], st_currplayer = 1,
          st_board = DAList.empty, st_lastmove = None\<rparr>"
    by code_simp
  have c: "currplayer (stateOf (Ceph_load 0 Ceph_afterA1)) = 1" by code_simp
  have d: "board (stateOf (Ceph_load 0 Ceph_afterA1)) = DAList.empty" by code_simp
  have e: "lastmove (stateOf (Ceph_load 0 Ceph_afterA1)) = None" by code_simp
  have f: "results (stateOf (Ceph_load 0 Ceph_afterA1)) = [RPlace (Some ''1'') ''a1'']"
    by code_simp
  from a b c d e f show ?thesis by simp
qed
section \<open>Encoding and decoding\<close>

declare serialize.simps [simp del]

lemma serialize_atoms:
  "serialize VUndefined = None" "serialize VNull = Some JNull"
  "serialize (VBool b) = Some (JBool b)" "serialize (VNum (Num r)) = Some (JNum r)"
  "serialize (VNum NaN) = Some JNull" "serialize (VStr s) = Some (JStr s)"
  "serialize (VNum PosInfinity) = Some JNull" "serialize (VNum NegInfinity) = Some JNull"
  "serialize (VNum NegZero) = Some (JNum 0)"
  by (simp_all add: serialize.simps replacer_def)

lemma serialize_VArr:
  "serialize (VArr xs) = Some (JArr (map enc xs))"
  by (simp add: serialize.simps [of "VArr xs"] replacer_def enc_def)

lemma serialize_VObj:
  "serialize (VObj kvs) =
     Some (JObj (concat (map (\<lambda>kv. case serialize (snd kv) of None \<Rightarrow> []
                                      | Some j \<Rightarrow> [(fst kv, j)]) kvs)))"
  by (simp add: serialize.simps [of "VObj kvs"] replacer_def)

lemma serialize_VMap:
  "serialize (VMap es) =
     Some (JObj [(''dataType'', JStr ''Map''),
                 (''value'', JArr (map (\<lambda>e. JArr [enc (fst e), enc (snd e)]) es))])"
  by (simp add: serialize.simps [of "VMap es"] replacer_def serialize_atoms serialize_VArr
        enc_def comp_def)

lemma serialize_VSet:
  "serialize (VSet xs) =
     Some (JObj [(''dataType'', JStr ''Set''), (''value'', JArr (map enc xs))])"
  by (simp add: serialize.simps [of "VSet xs"] replacer_def serialize_atoms serialize_VArr)

lemma collect_map_Inr:
  "(\<And>x. x \<in> set xs \<Longrightarrow> f x = Inr (g x)) \<Longrightarrow> collect (map f xs) = Inr (map g xs)"
  by (induction xs) auto

lemma mapPut_fresh:
  "\<not> (isPrimitive k \<and> k \<in> fst ` set es) \<Longrightarrow> mapPut es k v = es @ [(k, v)]"
  by (induction es) auto

lemma mapSet_fresh:
  "k \<noteq> VNum NegZero \<Longrightarrow> \<not> (isPrimitive k \<and> k \<in> fst ` set es) \<Longrightarrow>
   mapSet es k v = es @ [(k, v)]"
  by (simp add: mapSet_def keyOf_def mapPut_fresh)

lemma newMap_pairs:
  assumes "distinct (filter isPrimitive (map fst (acc @ es)))"
    and "VNum NegZero \<notin> fst ` set es"
  shows "foldE (\<lambda>es item. if isPrimitive item then Inl TypeError
                            else Inr (mapSet es (getProp item ''0'') (getProp item ''1'')))
               acc (map (\<lambda>e. VArr [fst e, snd e]) es) = Inr (acc @ es)"
  using assms
proof (induction es arbitrary: acc)
  case Nil
  then show ?case by simp
next
  case (Cons e es)
  from Cons.prems have fresh: "\<not> (isPrimitive (fst e) \<and> fst e \<in> fst ` set acc)"
    by auto
  from Cons.prems have nz: "fst e \<noteq> VNum NegZero" and nzs: "VNum NegZero \<notin> fst ` set es"
    by auto
  from Cons.prems have d: "distinct (filter isPrimitive (map fst ((acc @ [e]) @ es)))"
    by simp
  show ?case
    using Cons.IH [OF d nzs] mapSet_fresh [OF nz fresh, of "snd e"]
    by (simp add: isPrimitive_def getProp_def)
qed

lemma newSet_elems:
  "distinct (filter isPrimitive (acc @ xs)) \<Longrightarrow> VNum NegZero \<notin> set xs \<Longrightarrow>
   foldl setAdd acc xs = acc @ xs"
proof (induction xs arbitrary: acc)
  case Nil
  then show ?case by simp
next
  case (Cons x xs)
  from Cons.prems have "setAdd acc x = acc @ [x]"
    by (auto simp: setAdd_def keyOf_def Let_def)
  moreover from Cons.prems have "distinct (filter isPrimitive ((acc @ [x]) @ xs))" by simp
  moreover from Cons.prems have "VNum NegZero \<notin> set xs" by simp
  ultimately show ?case using Cons.IH [of "acc @ [x]"] by simp
qed

lemma revive_enc:
  "wellFormed v \<Longrightarrow> carried v \<Longrightarrow> (\<exists>j. serialize v = Some j) \<and> revive (enc v) = Inr v"
proof (induction v)
  case VUndefined
  then show ?case by simp
next
  case VNull
  then show ?case by (simp add: serialize_atoms enc_def reviver_def)
next
  case (VBool b)
  then show ?case by (simp add: serialize_atoms enc_def reviver_def)
next
  case (VNum n)
  then show ?case by (cases n) (simp_all add: serialize_atoms enc_def reviver_def)
next
  case (VStr s)
  then show ?case by (simp add: serialize_atoms enc_def reviver_def)
next
  case (VArr xs)
  then have "\<And>x. x \<in> set xs \<Longrightarrow> revive (enc x) = Inr x"
    by (auto simp: list_all_iff)
  then have "collect (map (\<lambda>x. revive (enc x)) xs) = Inr (map (\<lambda>x. x) xs)"
    by (rule collect_map_Inr)
  then show ?case
    by (simp add: serialize_VArr enc_def [of "VArr xs"] comp_def reviver_def)
next
  case (VObj kvs)
  then have ih: "\<And>kv. kv \<in> set kvs \<Longrightarrow>
      (\<exists>j. serialize (snd kv) = Some j) \<and> revive (enc (snd kv)) = Inr (snd kv)"
    by (auto simp: list_all_iff snds.simps)
  have c: "concat (map (\<lambda>kv. case serialize (snd kv) of None \<Rightarrow> []
                               | Some j \<Rightarrow> [(fst kv, j)]) kvs)
           = map (\<lambda>kv. (fst kv, enc (snd kv))) kvs"
  proof -
    have "\<forall>kv \<in> set kvs. \<exists>j. serialize (snd kv) = Some j" using ih by blast
    then show ?thesis by (induction kvs) (auto simp: enc_def)
  qed
  have "collect (map (\<lambda>kv. case revive (enc (snd kv)) of Inl e \<Rightarrow> Inl e
                             | Inr y \<Rightarrow> Inr (fst (fst kv, enc (snd kv)), y)) kvs)
        = Inr (map (\<lambda>kv. kv) kvs)"
    by (rule collect_map_Inr) (simp add: ih)
  with VObj.prems show ?case
    by (simp add: serialize_VObj enc_def [of "VObj kvs"] c comp_def reviver_def)
next
  case (VMap es)
  then have ih: "\<And>e. e \<in> set es \<Longrightarrow>
      revive (enc (fst e)) = Inr (fst e) \<and> revive (enc (snd e)) = Inr (snd e)"
    by (auto simp: list_all_iff fsts.simps snds.simps)
  have c: "collect (map (\<lambda>e. revive (JArr [enc (fst e), enc (snd e)])) es)
        = Inr (map (\<lambda>e. VArr [fst e, snd e]) es)"
    by (rule collect_map_Inr) (simp add: ih reviver_def)
  from VMap.prems have d: "distinct (filter isPrimitive (map fst ([] @ es)))" by simp
  have z: "VNum NegZero \<notin> fst ` set es"
  proof
    assume "VNum NegZero \<in> fst ` set es"
    then obtain e where "e \<in> set es" "fst e = VNum NegZero" by auto
    with VMap.prems have "carried (VNum NegZero)" by (auto simp: list_all_iff)
    then show False by simp
  qed
  from c newMap_pairs [OF d z] show ?case
    by (simp add: serialize_VMap enc_def [of "VMap es"] comp_def reviver_def getProp_def
          newMap_def iterate_def)
next
  case (VSet xs)
  then have "\<And>x. x \<in> set xs \<Longrightarrow> revive (enc x) = Inr x"
    by (auto simp: list_all_iff)
  then have c: "collect (map (\<lambda>x. revive (enc x)) xs) = Inr (map (\<lambda>x. x) xs)"
    by (rule collect_map_Inr)
  from VSet.prems have d: "distinct (filter isPrimitive ([] @ xs))" by simp
  have z: "VNum NegZero \<notin> set xs"
  proof
    assume "VNum NegZero \<in> set xs"
    with VSet.prems have "carried (VNum NegZero)" by (auto simp: list_all_iff)
    then show False by simp
  qed
  from c newSet_elems [OF d z] show ?case
    by (simp add: serialize_VSet enc_def [of "VSet xs"] comp_def reviver_def getProp_def
          newSet_def iterate_def)
qed

text \<open>
  C3, as the claim states it, fails: a plain object that happens to have the property
  \<open>dataType\<close> with the value \<open>Map\<close> is decoded as a \<open>Map\<close>, and an \<open>undefined\<close>, a
  \<open>NaN\<close> or an infinity in an array is decoded as \<open>null\<close>.
\<close>

theorem roundTrip_not_identity_counterexample:
  "roundTrip (VObj [(''dataType'', VStr ''Map''), (''value'', VArr [])]) = Inr (VMap [])
   \<and> roundTrip (VArr [VUndefined, VNum NaN, VNum PosInfinity, VNum NegInfinity])
       = Inr (VArr [VNull, VNull, VNull, VNull])"
  by code_simp

text \<open>
  C3, amended. Decoding the encoding of a value gives the value back when the value is
  built from \<open>Map\<close>s, \<open>Set\<close>s, arrays, plain objects, \<open>null\<close>, booleans, strings and
  finite numbers other than the negative zero, and none of its plain objects has a
  property \<open>dataType\<close> equal to the string \<open>Map\<close> or \<open>Set\<close>.
\<close>

theorem roundTrip_identity:
  "wellFormed x \<Longrightarrow> carried x \<Longrightarrow> roundTrip x = Inr x"
  using revive_enc [of x] by (auto simp: roundTrip_def enc_def)

theorem roundTrip_identity_witness:
  "wellFormed (VObj [(''board'', VMap [(VStr ''a1'', VArr [VNum (Num 1), VNum (Num 3)]),
                                       (VArr [], VSet [VNull, VMap [], VStr ''x''])]),
                     (''gameover'', VBool False)])
   \<and> carried (VObj [(''board'', VMap [(VStr ''a1'', VArr [VNum (Num 1), VNum (Num 3)]),
                                      (VArr [], VSet [VNull, VMap [], VStr ''x''])]),
                    (''gameover'', VBool False)])
   \<and> roundTrip (VObj [(''board'', VMap [(VStr ''a1'', VArr [VNum (Num 1), VNum (Num 3)]),
                                        (VArr [], VSet [VNull, VMap [], VStr ''x''])]),
                      (''gameover'', VBool False)])
       = Inr (VObj [(''board'', VMap [(VStr ''a1'', VArr [VNum (Num 1), VNum (Num 3)]),
                                      (VArr [], VSet [VNull, VMap [], VStr ''x''])]),
                    (''gameover'', VBool False)])"
proof -
  let ?x = "VObj [(''board'', VMap [(VStr ''a1'', VArr [VNum (Num 1), VNum (Num 3)]),
                                    (VArr [], VSet [VNull, VMap [], VStr ''x''])]),
                  (''gameover'', VBool False)]"
  have w: "wellFormed ?x" by code_simp
  have c: "carried ?x" by code_simp
  from roundTrip_identity [OF w c] w c show ?thesis by simp
qed

section \<open>The fingerprint does not see the order of keys\<close>


lemma sorted_keys_unique:
  fixes A B :: "(string \<times> 'a) list"
  assumes s: "set A = set B" and dA: "distinct (map fst A)" and dB: "distinct (map fst B)"
  shows "sort_key fst A = sort_key fst B"
proof -
  let ?A = "sort_key fst A" and ?B = "sort_key fst B"
  have keys: "map fst ?A = map fst ?B"
  proof (rule sorted_distinct_set_unique)
    show "sorted (map fst ?A)" "sorted (map fst ?B)" by simp_all
    show "distinct (map fst ?A)" using dA by (simp add: distinct_map)
    show "distinct (map fst ?B)" using dB by (simp add: distinct_map)
    show "set (map fst ?A) = set (map fst ?B)" using s by simp
  qed
  have len: "length ?A = length ?B" using keys by (metis length_map)
  have dA': "distinct (map fst ?A)" using dA by (simp add: distinct_map)
  show ?thesis
  proof (rule nth_equalityI [OF len])
    fix i assume i: "i < length ?A"
    then have "?A ! i \<in> set ?B" using s by (metis nth_mem set_sort)
    then obtain j where j: "j < length ?B" "?B ! j = ?A ! i"
      unfolding in_set_conv_nth by blast
    have e: "map fst ?B ! j = map fst ?B ! i"
      using i j len keys by (metis nth_map)
    have dB': "distinct (map fst ?B)" using dB by (simp add: distinct_map)
    have "j < length (map fst ?B)" "i < length (map fst ?B)" using i j len by simp_all
    with e dB' have "j = i" by (simp only: nth_eq_iff_index_eq)
    with j show "?A ! i = ?B ! i" by simp
  qed
qed

lemma members_agree:
  fixes f g :: "string \<times> json \<Rightarrow> string \<times> string"
  assumes len: "length kvs = length kvs'"
    and dk: "distinct (map fst kvs)" and dk': "distinct (map fst kvs')"
    and ff: "\<And>kv. fst (f kv) = fst kv" and gg: "\<And>kv. fst (g kv) = fst kv"
    and m: "\<forall>kv \<in> set kvs. \<exists>kv' \<in> set kvs'. f kv = g kv'"
  shows "set (map f kvs) = set (map g kvs')"
proof -
  have df: "distinct (map f kvs)"
    using dk by (metis (no_types, lifting) ff distinct_map inj_on_def)
  have dg: "distinct (map g kvs')"
    using dk' by (metis (no_types, lifting) gg distinct_map inj_on_def)
  have sub: "set (map f kvs) \<subseteq> set (map g kvs')" using m by auto
  have "card (set (map f kvs)) = length kvs" using df by (metis distinct_card length_map)
  moreover have "card (set (map g kvs')) = length kvs'" using dg by (metis distinct_card length_map)
  ultimately have "card (set (map f kvs)) = card (set (map g kvs'))" using len by simp
  with sub show ?thesis by (simp add: card_subset_eq)
qed

lemma stringify_key_order:
  "sameButKeyOrder x y \<Longrightarrow> distinctKeys x \<Longrightarrow> distinctKeys y \<Longrightarrow>
   stringify numText x = stringify numText y"
proof (induction x y rule: sameButKeyOrder.induct)
  case (1 xs ys)
  from "1.prems" have "list_all2 (\<lambda>a b. stringify numText a = stringify numText b) xs ys"
    using "1.IH"
    by (auto simp: list_all2_conv_all_nth list_all_iff)
  then have "map (stringify numText) xs = map (stringify numText) ys"
    by (induction xs ys rule: list_all2_induct) simp_all
  then show ?case by simp
next
  case (2 kvs kvs')
  let ?f = "\<lambda>kv. (fst kv, stringify numText (snd kv))"
  from "2.prems" have len: "length kvs = length kvs'"
    and dk: "distinct (map fst kvs)" and dk': "distinct (map fst kvs')" by auto
  have m: "\<forall>kv \<in> set kvs. \<exists>kv' \<in> set kvs'. ?f kv = ?f kv'"
  proof
    fix kv assume kv: "kv \<in> set kvs"
    with "2.prems" obtain kv' where kv': "kv' \<in> set kvs'" "fst kv = fst kv'"
      "sameButKeyOrder (snd kv) (snd kv')" by auto
    from "2.prems" kv kv' have "distinctKeys (snd kv)" "distinctKeys (snd kv')"
      by (auto simp: list_all_iff)
    with "2.IH" [OF kv kv'(1) kv'(3)] kv' show "\<exists>kv' \<in> set kvs'. ?f kv = ?f kv'"
      by auto
  qed
  have "set (map ?f kvs) = set (map ?f kvs')"
    by (rule members_agree [OF len dk dk']) (use m in auto)
  moreover have "distinct (map fst (map ?f kvs))" "distinct (map fst (map ?f kvs'))"
    using dk dk' by (simp_all add: comp_def)
  ultimately have "sort_key fst (map ?f kvs) = sort_key fst (map ?f kvs')"
    by (rule sorted_keys_unique)
  then show ?case by simp
qed auto

lemma hex_shape: "length (hex h) = 8 \<and> set (hex h) \<subseteq> set ''0123456789abcdef''"
proof -
  have "hexDigit n \<in> set ''0123456789abcdef''" for n
  proof -
    have "n mod 16 < length ''0123456789abcdef''" by simp
    then show ?thesis unfolding hexDigit_def by (rule nth_mem)
  qed
  then show ?thesis by (auto simp: hex_def)
qed


text \<open>
  C8. \<open>x2uid\<close> is the hexadecimal rendering (eight digits) of the seeded FNV hash of the
  canonical text, and two values that are the same but for the order of the keys in
  their objects have the same canonical text and so the same \<open>x2uid\<close>.
\<close>

theorem x2uid_ignores_key_order:
  "x2uid numText x = hex (fnvHash (fnvSeed ''apgames'') (stringify numText x))
   \<and> length (x2uid numText x) = 8
   \<and> set (x2uid numText x) \<subseteq> set ''0123456789abcdef''
   \<and> (sameButKeyOrder x y \<and> distinctKeys x \<and> distinctKeys y \<longrightarrow>
        stringify numText x = stringify numText y \<and> x2uid numText x = x2uid numText y)"
  using hex_shape [of "fnvHash (fnvSeed ''apgames'') (stringify numText x)"]
    stringify_key_order [of x y numText]
  by (auto simp: x2uid_def)

theorem x2uid_ignores_key_order_witness:
  "sameButKeyOrder
     (JObj [(''b'', JArr [JObj [(''y'', JBool True), (''x'', JNull)]]), (''a'', JNum 1)])
     (JObj [(''a'', JNum 1), (''b'', JArr [JObj [(''x'', JNull), (''y'', JBool True)]])])
   \<and> distinctKeys
       (JObj [(''b'', JArr [JObj [(''y'', JBool True), (''x'', JNull)]]), (''a'', JNum 1)])
   \<and> distinctKeys
       (JObj [(''a'', JNum 1), (''b'', JArr [JObj [(''x'', JNull), (''y'', JBool True)]])])
   \<and> x2uid (\<lambda>r. toString \<lfloor>r\<rfloor>)
       (JObj [(''b'', JArr [JObj [(''y'', JBool True), (''x'', JNull)]]), (''a'', JNum 1)])
     = x2uid (\<lambda>r. toString \<lfloor>r\<rfloor>)
       (JObj [(''a'', JNum 1), (''b'', JArr [JObj [(''x'', JNull), (''y'', JBool True)]])])"
proof -
  let ?x = "JObj [(''b'', JArr [JObj [(''y'', JBool True), (''x'', JNull)]]), (''a'', JNum 1)]"
  let ?y = "JObj [(''a'', JNum 1), (''b'', JArr [JObj [(''x'', JNull), (''y'', JBool True)]])]"
  have s: "sameButKeyOrder ?x ?y" by code_simp
  have d: "distinctKeys ?x" "distinctKeys ?y" by code_simp+
  from x2uid_ignores_key_order [of "\<lambda>r. toString \<lfloor>r\<rfloor>" ?x ?y]
  have "sameButKeyOrder ?x ?y \<and> distinctKeys ?x \<and> distinctKeys ?y \<longrightarrow>
        x2uid (\<lambda>r. toString \<lfloor>r\<rfloor>) ?x = x2uid (\<lambda>r. toString \<lfloor>r\<rfloor>) ?y"
    by blast
  with s d show ?thesis by blast
qed

end
